theory Spec2Isabelle
  imports Main "HOL-Library.Word"
begin

section \<open>Python values, exceptions and HTTP messages\<close>

text \<open>
  The service is three Python modules: \<^verbatim>\<open>helpers/token.py\<close> (one function,
  \<^verbatim>\<open>get_access_token\<close>), \<^verbatim>\<open>helpers/upload.py\<close> (\<^verbatim>\<open>upload_file\<close>,
  \<^verbatim>\<open>convert_to_pdf\<close>, \<^verbatim>\<open>delete_file\<close>) and \<^verbatim>\<open>main.py\<close> (the endpoint
  \<^verbatim>\<open>convert\<close>). Every function awaits its calls one after the other, so a run is a
  sequence of effects; the model passes the log of the effects performed so far through
  every function and returns it extended.

  A \<^verbatim>\<open>bytes\<close> value is a list of 8-bit characters. A \<^verbatim>\<open>str\<close> is the list of its
  Unicode code points, each a natural number, so that a filename, a token or a JSON string
  may hold any character; \<open>lit\<close> turns a literal of 8-bit characters into the \<^verbatim>\<open>str\<close>
  with the same code points.
\<close>

type_synonym bytes = "char list"

type_synonym str = "nat list"

definition lit :: "string \<Rightarrow> str" where
  "lit s = map of_char s"

text \<open>What \<^verbatim>\<open>Response.json()\<close> can return: the values of Python's \<^verbatim>\<open>json\<close> module.
  A float is kept as its 64 bits; no arithmetic is done on it.\<close>

datatype json =
    JNull
  | JBool bool
  | JInt int
  | JFloat "64 word"
  | JString str
  | JArray "json list"
  | JObject "(str \<times> json) list"

text \<open>
  The exceptions of a run. \<open>HTTPException\<close> is FastAPI's, with its status code and
  detail; \<open>HTTPStatusError\<close> is what httpx's \<^verbatim>\<open>raise_for_status\<close> raises, with the
  status code of the response; \<open>RequestError\<close> stands for a failure of the HTTP call itself
  (connection, timeout, an URL or header that cannot be sent); \<open>JSONDecodeError\<close>,
  \<open>KeyError\<close>, \<open>TypeError\<close> and \<open>UnicodeEncodeError\<close> are Python's; \<open>OSError\<close> is a
  failed read of the uploaded file. The messages of \<open>RequestError\<close> and \<open>OSError\<close> are
  labels that nothing inspects.
\<close>

datatype exn =
    HTTPException nat str
  | HTTPStatusError nat
  | RequestError string
  | JSONDecodeError
  | KeyError str
  | TypeError
  | UnicodeEncodeError
  | OSError string

datatype http_method = GET | POST | PUT | DELETE

text \<open>The keyword argument that carries the body of a request: \<^verbatim>\<open>data=\<close> (a form, a
  dict from field names to values that \<^verbatim>\<open>os.getenv\<close> may have left \<^verbatim>\<open>None\<close>),
  \<^verbatim>\<open>content=\<close> (raw bytes), or neither.\<close>

datatype payload =
    NoPayload
  | Data "(str \<times> str option) list"
  | Content bytes

record request =
  verb :: http_method
  url :: str
  headers :: "(str \<times> str) list"
  body :: payload

text \<open>
  What the code reads of an \<^verbatim>\<open>httpx.Response\<close>: \<^verbatim>\<open>status_code\<close>, \<^verbatim>\<open>content\<close>, and
  the outcome of \<^verbatim>\<open>json()\<close>, which is \<open>None\<close> when the body is not a JSON document
  (the method raises then).
\<close>

record response =
  status_code :: nat
  content :: bytes
  json_body :: "json option"

text \<open>
  The effects of a run, in the order they happen: a call of a method of
  \<^verbatim>\<open>httpx.AsyncClient\<close> with the request it was given, and the read of the uploaded
  file. The network is any function that, from the effects so far and the request,
  makes the call raise or return a response.
\<close>

datatype event = Call request | FileRead

type_synonym network = "event list \<Rightarrow> request \<Rightarrow> exn + response"

text \<open>The process configuration: four \<^verbatim>\<open>os.getenv\<close> results, each a string or
  \<^verbatim>\<open>None\<close>.\<close>

record config =
  TENANT_ID :: "str option"
  CLIENT_ID :: "str option"
  CLIENT_SECRET :: "str option"
  GRAPH_USER_ID :: "str option"

text \<open>The argument of the endpoint: FastAPI's \<^verbatim>\<open>UploadFile\<close>, with its
  \<^verbatim>\<open>filename\<close> and the outcome of \<^verbatim>\<open>await file.read()\<close>.\<close>

record UploadFile =
  filename :: str
  read_result :: "exn + bytes"

text \<open>The value the endpoint returns, a Starlette \<^verbatim>\<open>StreamingResponse\<close>: its status
  code, its media type, its headers as the bytes that go on the wire
  (\<^verbatim>\<open>raw_headers\<close>) and the bytes its body iterator yields.\<close>

record StreamingResponse =
  status :: nat
  media_type :: str
  raw_headers :: "(bytes \<times> bytes) list"
  stream :: bytes


section \<open>Library operations\<close>

text \<open>
  \<^verbatim>\<open>str.lower()\<close> on the letters A to Z (code points 65 to 90). Python also lowers
  cased letters beyond ASCII, some of them to more than one code point, none to nothing;
  no code point above 127 has a character of \<^verbatim>\<open>.docx\<close> or of \<^verbatim>\<open>.pptx\<close> in its
  lowering, so a lowered filename ends in one of the two here exactly when it does in
  Python. The only other string that is lowered is the header name
  \<^verbatim>\<open>Content-Disposition\<close>, which is ASCII.
\<close>

definition lower_char :: "nat \<Rightarrow> nat" where
  "lower_char n = (if 65 \<le> n \<and> n \<le> 90 then n + 32 else n)"

definition lower :: "str \<Rightarrow> str" where
  "lower s = map lower_char s"

text \<open>\<^verbatim>\<open>s.endswith(suf)\<close>: the last \<open>length suf\<close> characters of \<open>s\<close> are \<open>suf\<close>;
  with a tuple, some member of the tuple is such a suffix.\<close>

definition tailmatch :: "str \<Rightarrow> str \<Rightarrow> bool" where
  "tailmatch s suf = (length suf \<le> length s \<and> drop (length s - length suf) s = suf)"

primrec endswith :: "str \<Rightarrow> str list \<Rightarrow> bool" where
  "endswith s [] = False"
| "endswith s (suf # sufs) = (tailmatch s suf \<or> endswith s sufs)"

text \<open>An \<^verbatim>\<open>os.getenv\<close> result inside an f-string: \<^verbatim>\<open>None\<close> prints as
  \<^verbatim>\<open>None\<close>.\<close>

definition fstr :: "str option \<Rightarrow> str" where
  "fstr v = (case v of None \<Rightarrow> lit ''None'' | Some s \<Rightarrow> s)"

text \<open>\<^verbatim>\<open>s.encode("latin-1")\<close>: one byte for each code point, and
  \<^verbatim>\<open>UnicodeEncodeError\<close> when a code point is above 255.\<close>

definition latin1 :: "str \<Rightarrow> bytes" where
  "latin1 s = map char_of s"

definition encode_latin1 :: "str \<Rightarrow> exn + bytes" where
  "encode_latin1 s =
     (if list_all (\<lambda>c. c < 256) s then Inr (latin1 s) else Inl UnicodeEncodeError)"

text \<open>
  \<^verbatim>\<open>StreamingResponse(io.BytesIO(b), media_type="application/pdf", headers=h)\<close>, as
  Starlette builds it. The status code is the default 200. Every header of \<open>h\<close> is
  encoded, its name lowered, both name and value as latin-1: a character above U+00FF in
  one of them raises. The header \<^verbatim>\<open>content-type\<close> is added from the media type when
  \<open>h\<close> has none (no charset is appended, the media type does not start with
  \<^verbatim>\<open>text/\<close>); a streaming response has no \<^verbatim>\<open>content-length\<close>. The body iterator
  yields the bytes of the buffer.
\<close>

primrec encode_headers :: "(str \<times> str) list \<Rightarrow> exn + (bytes \<times> bytes) list" where
  "encode_headers [] = Inr []"
| "encode_headers (h # hs) =
     (case encode_latin1 (lower (fst h)) of
        Inl e \<Rightarrow> Inl e
      | Inr k \<Rightarrow>
          (case encode_latin1 (snd h) of
             Inl e \<Rightarrow> Inl e
           | Inr v \<Rightarrow>
               (case encode_headers hs of
                  Inl e \<Rightarrow> Inl e
                | Inr r \<Rightarrow> Inr ((k, v) # r))))"

definition pdf_StreamingResponse :: "bytes \<Rightarrow> (str \<times> str) list \<Rightarrow> exn + StreamingResponse" where
  "pdf_StreamingResponse b h =
     (case encode_headers h of
        Inl e \<Rightarrow> Inl e
      | Inr raw \<Rightarrow>
          Inr \<lparr>status = 200, media_type = lit ''application/pdf'',
               raw_headers =
                 (if ''content-type'' \<in> set (map fst raw) then raw
                  else raw @ [(''content-type'', latin1 (lit ''application/pdf''))]),
               stream = b\<rparr>)"

text \<open>A method of the client is called: the network decides the outcome, the call is
  logged.\<close>

definition client_call :: "network \<Rightarrow> request \<Rightarrow> event list \<Rightarrow> (exn + response) \<times> event list" where
  "client_call net req log = (net log req, log @ [Call req])"

text \<open>httpx's \<^verbatim>\<open>raise_for_status\<close>: a response whose status is not 2xx raises.\<close>

definition raise_for_status :: "response \<Rightarrow> exn + response" where
  "raise_for_status res =
     (if 200 \<le> status_code res \<and> status_code res \<le> 299 then Inr res
      else Inl (HTTPStatusError (status_code res)))"

definition json_of :: "response \<Rightarrow> exn + json" where
  "json_of res = (case json_body res of None \<Rightarrow> Inl JSONDecodeError | Some j \<Rightarrow> Inr j)"

text \<open>\<^verbatim>\<open>j[k]\<close> with a string \<open>k\<close>: a dict looks the key up, every other JSON value
  raises \<^verbatim>\<open>TypeError\<close>.\<close>

definition getitem :: "json \<Rightarrow> str \<Rightarrow> exn + json" where
  "getitem j k =
     (case j of
        JObject kvs \<Rightarrow> (case map_of kvs k of None \<Rightarrow> Inl (KeyError k) | Some v \<Rightarrow> Inr v)
      | _ \<Rightarrow> Inl TypeError)"

text \<open>\<^verbatim>\<open>await file.read()\<close>.\<close>

definition file_read :: "UploadFile \<Rightarrow> event list \<Rightarrow> (exn + bytes) \<times> event list" where
  "file_read file log = (read_result file, log @ [FileRead])"


section \<open>helpers/token.py\<close>

definition TOKEN_URL :: "config \<Rightarrow> str" where
  "TOKEN_URL cfg = lit ''https://login.microsoftonline.com/'' @ fstr (TENANT_ID cfg) @ lit ''/oauth2/v2.0/token''"

definition get_access_token :: "config \<Rightarrow> network \<Rightarrow> event list \<Rightarrow> (exn + json) \<times> event list" where
  "get_access_token cfg net log =
     (let (r, log') =
        client_call net
          \<lparr>verb = POST, url = TOKEN_URL cfg, headers = [],
           body = Data [(lit ''client_id'', CLIENT_ID cfg),
                        (lit ''client_secret'', CLIENT_SECRET cfg),
                        (lit ''grant_type'', Some (lit ''client_credentials'')),
                        (lit ''scope'', Some (lit ''https://graph.microsoft.com/.default''))]\<rparr> log
      in (case r of
            Inl e \<Rightarrow> Inl e
          | Inr res \<Rightarrow>
              (case raise_for_status res of
                 Inl e \<Rightarrow> Inl e
               | Inr _ \<Rightarrow>
                   (case json_of res of
                      Inl e \<Rightarrow> Inl e
                    | Inr j \<Rightarrow> getitem j (lit ''access_token''))),
          log'))"


section \<open>helpers/upload.py\<close>

text \<open>
  The token is whatever \<^verbatim>\<open>get_access_token\<close> returned, a JSON value; the f-string
  \<^verbatim>\<open>f"Bearer {token}"\<close> prints it with Python's \<^verbatim>\<open>str\<close>, the parameter \<open>py_str\<close>
  of the three functions.
\<close>

definition BASE_URL :: "config \<Rightarrow> str" where
  "BASE_URL cfg = lit ''https://graph.microsoft.com/v1.0/users/'' @ fstr (GRAPH_USER_ID cfg) @ lit ''/drive''"

definition upload_file ::
  "config \<Rightarrow> (json \<Rightarrow> str) \<Rightarrow> network \<Rightarrow> json \<Rightarrow> str \<Rightarrow> bytes \<Rightarrow> event list
     \<Rightarrow> (exn + json) \<times> event list" where
  "upload_file cfg py_str net token fname bs log =
     (let u = BASE_URL cfg @ lit ''/root:/'' @ fname @ lit '':/content'';
          hs = [(lit ''Authorization'', lit ''Bearer '' @ py_str token),
                (lit ''Content-Type'', lit ''application/octet-stream'')];
          (r, log') = client_call net \<lparr>verb = PUT, url = u, headers = hs, body = Content bs\<rparr> log
      in (case r of
            Inl e \<Rightarrow> Inl e
          | Inr res \<Rightarrow>
              (case raise_for_status res of
                 Inl e \<Rightarrow> Inl e
               | Inr _ \<Rightarrow> json_of res),
          log'))"

definition convert_to_pdf ::
  "config \<Rightarrow> (json \<Rightarrow> str) \<Rightarrow> network \<Rightarrow> json \<Rightarrow> str \<Rightarrow> event list
     \<Rightarrow> (exn + bytes) \<times> event list" where
  "convert_to_pdf cfg py_str net token fname log =
     (let u = BASE_URL cfg @ lit ''/root:/'' @ fname @ lit '':/content?format=pdf'';
          hs = [(lit ''Authorization'', lit ''Bearer '' @ py_str token)];
          (r, log') = client_call net \<lparr>verb = GET, url = u, headers = hs, body = NoPayload\<rparr> log
      in (case r of
            Inl e \<Rightarrow> Inl e
          | Inr res \<Rightarrow>
              (case raise_for_status res of
                 Inl e \<Rightarrow> Inl e
               | Inr _ \<Rightarrow> Inr (content res)),
          log'))"

definition delete_file ::
  "config \<Rightarrow> (json \<Rightarrow> str) \<Rightarrow> network \<Rightarrow> json \<Rightarrow> str \<Rightarrow> event list
     \<Rightarrow> (exn + unit) \<times> event list" where
  "delete_file cfg py_str net token fname log =
     (let u = BASE_URL cfg @ lit ''/root:/'' @ fname;
          hs = [(lit ''Authorization'', lit ''Bearer '' @ py_str token)];
          (r, log') = client_call net \<lparr>verb = DELETE, url = u, headers = hs, body = NoPayload\<rparr> log
      in (case r of Inl e \<Rightarrow> Inl e | Inr _ \<Rightarrow> Inr (), log'))"


section \<open>main.py\<close>

text \<open>
  The endpoint. A request starts with an empty log. The \<^verbatim>\<open>try\<close> block is the upload
  followed, when it returned, by the conversion; the \<^verbatim>\<open>finally\<close> block runs after it
  however it ended, and an exception of the \<^verbatim>\<open>finally\<close> block is the one that leaves
  the statement. The response is built after it, and building it can raise.
\<close>

definition convert ::
  "config \<Rightarrow> (json \<Rightarrow> str) \<Rightarrow> network \<Rightarrow> UploadFile \<Rightarrow> (exn + StreamingResponse) \<times> event list" where
  "convert cfg py_str net file =
     (if \<not> endswith (lower (filename file)) [lit ''.docx'', lit ''.pptx'']
      then (Inl (HTTPException 400 (lit ''Only DOCX or PPTX supported'')), [])
      else
        (case get_access_token cfg net [] of
           (Inl e, log1) \<Rightarrow> (Inl e, log1)
         | (Inr token, log1) \<Rightarrow>
             (case file_read file log1 of
                (Inl e, log2) \<Rightarrow> (Inl e, log2)
              | (Inr bs, log2) \<Rightarrow>
                  (let (r, log3) =
                         (case upload_file cfg py_str net token (filename file) bs log2 of
                            (Inl e, l) \<Rightarrow> (Inl e, l)
                          | (Inr _, l) \<Rightarrow> convert_to_pdf cfg py_str net token (filename file) l);
                       (d, log4) = delete_file cfg py_str net token (filename file) log3
                   in (case d of
                         Inl e \<Rightarrow> (Inl e, log4)
                       | Inr _ \<Rightarrow>
                           (case r of
                              Inl e \<Rightarrow> (Inl e, log4)
                            | Inr pdf_bytes \<Rightarrow>
                                (pdf_StreamingResponse pdf_bytes
                                   [(lit ''Content-Disposition'',
                                     lit ''attachment; filename='' @ filename file @ lit ''.pdf'')],
                                 log4)))))))"

text \<open>The calls of a log, and their methods: the token request is the only POST, the
  upload the only PUT, the conversion the only GET, the cleanup the only DELETE.\<close>

fun calls :: "event list \<Rightarrow> request list" where
  "calls [] = []"
| "calls (Call req # es) = req # calls es"
| "calls (FileRead # es) = calls es"

definition verbs :: "event list \<Rightarrow> http_method list" where
  "verbs log = map verb (calls log)"


text \<open>Names for the four requests that the functions above build, to state what a
  log holds.\<close>

abbreviation token_request :: "config \<Rightarrow> request" where
  "token_request cfg \<equiv>
     \<lparr>verb = POST, url = TOKEN_URL cfg, headers = [],
      body = Data [(lit ''client_id'', CLIENT_ID cfg),
                   (lit ''client_secret'', CLIENT_SECRET cfg),
                   (lit ''grant_type'', Some (lit ''client_credentials'')),
                   (lit ''scope'', Some (lit ''https://graph.microsoft.com/.default''))]\<rparr>"

abbreviation upload_request :: "config \<Rightarrow> (json \<Rightarrow> str) \<Rightarrow> json \<Rightarrow> str \<Rightarrow> bytes \<Rightarrow> request" where
  "upload_request cfg py_str token fname bs \<equiv>
     \<lparr>verb = PUT, url = BASE_URL cfg @ lit ''/root:/'' @ fname @ lit '':/content'',
      headers = [(lit ''Authorization'', lit ''Bearer '' @ py_str token),
                 (lit ''Content-Type'', lit ''application/octet-stream'')],
      body = Content bs\<rparr>"

abbreviation convert_request :: "config \<Rightarrow> (json \<Rightarrow> str) \<Rightarrow> json \<Rightarrow> str \<Rightarrow> request" where
  "convert_request cfg py_str token fname \<equiv>
     \<lparr>verb = GET, url = BASE_URL cfg @ lit ''/root:/'' @ fname @ lit '':/content?format=pdf'',
      headers = [(lit ''Authorization'', lit ''Bearer '' @ py_str token)],
      body = NoPayload\<rparr>"

abbreviation delete_request :: "config \<Rightarrow> (json \<Rightarrow> str) \<Rightarrow> json \<Rightarrow> str \<Rightarrow> request" where
  "delete_request cfg py_str token fname \<equiv>
     \<lparr>verb = DELETE, url = BASE_URL cfg @ lit ''/root:/'' @ fname,
      headers = [(lit ''Authorization'', lit ''Bearer '' @ py_str token)],
      body = NoPayload\<rparr>"

text \<open>The construction of the response from the converted bytes, as the endpoint calls
  it.\<close>

abbreviation pdf_response :: "str \<Rightarrow> bytes \<Rightarrow> exn + StreamingResponse" where
  "pdf_response fname pdf_bytes \<equiv>
     pdf_StreamingResponse pdf_bytes
       [(lit ''Content-Disposition'', lit ''attachment; filename='' @ fname @ lit ''.pdf'')]"


section \<open>An example deployment\<close>

text \<open>
  A configuration, two uploaded files and a family of networks to run the endpoint on.
  \<open>scripted\<close> answers by the method of the request alone: the token request is the
  POST, the upload the PUT, the conversion the GET and the cleanup the DELETE.
  \<open>str_token\<close> is Python's \<^verbatim>\<open>str\<close> on the tokens of the examples, which are JSON
  strings (a string prints as itself) or \<^verbatim>\<open>null\<close>.
\<close>

definition demo_cfg :: config where
  "demo_cfg = \<lparr>TENANT_ID = Some (lit ''contoso''), CLIENT_ID = Some (lit ''app-1''),
                CLIENT_SECRET = Some (lit ''s3cret''), GRAPH_USER_ID = Some (lit ''alice'')\<rparr>"

definition str_token :: "json \<Rightarrow> str" where
  "str_token v = (case v of JString s \<Rightarrow> s | _ \<Rightarrow> lit ''None'')"

definition scripted ::
  "(exn + response) \<Rightarrow> (exn + response) \<Rightarrow> (exn + response) \<Rightarrow> (exn + response) \<Rightarrow> network" where
  "scripted tok up pdf del log req =
     (case verb req of POST \<Rightarrow> tok | PUT \<Rightarrow> up | GET \<Rightarrow> pdf | DELETE \<Rightarrow> del)"

definition token_ok :: response where
  \<open>token_ok = \<lparr>status_code = 200, content = ''{"access_token": "tok"}'',
                json_body = Some (JObject [(lit ''access_token'', JString (lit ''tok''))])\<rparr>\<close>

definition upload_ok :: response where
  \<open>upload_ok = \<lparr>status_code = 201, content = ''{"id": "42"}'',
                 json_body = Some (JObject [(lit ''id'', JString (lit ''42''))])\<rparr>\<close>

definition pdf_ok :: response where
  "pdf_ok = \<lparr>status_code = 200, content = ''%PDF-1.7'', json_body = None\<rparr>"

definition delete_ok :: response where
  "delete_ok = \<lparr>status_code = 204, content = [], json_body = None\<rparr>"

definition all_ok :: network where
  "all_ok = scripted (Inr token_ok) (Inr upload_ok) (Inr pdf_ok) (Inr delete_ok)"

definition report_docx :: UploadFile where
  "report_docx = \<lparr>filename = lit ''report.docx'', read_result = Inr ''X''\<rparr>"

definition image_png :: UploadFile where
  "image_png = \<lparr>filename = lit ''image.png'', read_result = Inr ''PNG''\<rparr>"

text \<open>Files named by the bare extension, in capitals after dots, and by nothing; a file
  whose body cannot be read.\<close>

definition bare_docx :: UploadFile where
  "bare_docx = \<lparr>filename = lit ''.docx'', read_result = Inr ''X''\<rparr>"

definition dotted_DOCX :: UploadFile where
  "dotted_DOCX = \<lparr>filename = lit ''a.b.DOCX'', read_result = Inr ''X''\<rparr>"

text \<open>A report with a Cyrillic name, the code points of its five letters followed by the
  extension.\<close>

definition cyrillic_docx :: UploadFile where
  "cyrillic_docx =
     \<lparr>filename = [1086, 1090, 1095, 1077, 1090] @ lit ''.docx'', read_result = Inr ''X''\<rparr>"

definition unreadable_docx :: UploadFile where
  "unreadable_docx = \<lparr>filename = lit ''report.docx'', read_result = Inl (OSError ''read failed'')\<rparr>"

text \<open>Answers of a failing service: the token endpoint refuses the credentials, the
  drive is full, the drive answers the upload with a page that is not JSON, the file is
  already gone when the cleanup runs.\<close>

definition token_denied :: response where
  "token_denied = \<lparr>status_code = 401, content = ''invalid_client'', json_body = None\<rparr>"

definition upload_full :: response where
  "upload_full = \<lparr>status_code = 507, content = ''quota'', json_body = None\<rparr>"

definition upload_html :: response where
  "upload_html = \<lparr>status_code = 200, content = ''<html>ok</html>'', json_body = None\<rparr>"

definition delete_gone :: response where
  "delete_gone = \<lparr>status_code = 404, content = ''itemNotFound'', json_body = None\<rparr>"

definition token_without_field :: response where
  \<open>token_without_field = \<lparr>status_code = 200, content = ''{"token_type": "Bearer"}'',
                           json_body = Some (JObject [(lit ''token_type'', JString (lit ''Bearer''))])\<rparr>\<close>

definition token_not_json :: response where
  "token_not_json = \<lparr>status_code = 200, content = ''<html>login</html>'', json_body = None\<rparr>"

definition not_a_pdf :: response where
  "not_a_pdf = \<lparr>status_code = 200, content = ''hello'', json_body = None\<rparr>"

definition token_down :: network where
  "token_down = scripted (Inr token_denied) (Inr upload_ok) (Inr pdf_ok) (Inr delete_ok)"

definition upload_down :: network where
  "upload_down = scripted (Inr token_ok) (Inr upload_full) (Inr pdf_ok) (Inr delete_ok)"

definition upload_not_json :: network where
  "upload_not_json = scripted (Inr token_ok) (Inr upload_html) (Inr pdf_ok) (Inr delete_ok)"

definition delete_404 :: network where
  "delete_404 = scripted (Inr token_ok) (Inr upload_ok) (Inr pdf_ok) (Inr delete_gone)"

definition delete_unreachable :: network where
  "delete_unreachable =
     scripted (Inr token_ok) (Inr upload_ok) (Inr pdf_ok) (Inl (RequestError ''connection reset''))"

lemmas demo_defs =
  demo_cfg_def str_token_def scripted_def token_ok_def upload_ok_def pdf_ok_def delete_ok_def
  all_ok_def report_docx_def image_png_def bare_docx_def dotted_DOCX_def unreadable_docx_def
  token_denied_def upload_full_def upload_html_def delete_gone_def token_down_def
  upload_down_def upload_not_json_def delete_404_def delete_unreachable_def
  token_without_field_def token_not_json_def not_a_pdf_def cyrillic_docx_def

lemmas run_defs =
  convert_def get_access_token_def upload_file_def convert_to_pdf_def delete_file_def
  client_call_def file_read_def raise_for_status_def json_of_def getitem_def
  TOKEN_URL_def BASE_URL_def fstr_def

lemmas str_defs = lit_def lower_def lower_char_def tailmatch_def


section \<open>Literals and latin-1\<close>

lemma lit_append: "lit (a @ b) = lit a @ lit b"
  by (simp add: lit_def)

lemma latin1_append: "latin1 (a @ b) = latin1 a @ latin1 b"
  by (simp add: latin1_def)

lemma latin1_lit: "latin1 (lit s) = s"
  by (induction s) (simp_all add: latin1_def lit_def)

lemma of_char_below_256: "(of_char c :: nat) < 256"
proof -
  have "(of_char c :: nat) mod 256 < 256"
    by (rule mod_less_divisor) simp
  then show ?thesis
    by simp
qed

lemma lit_below_256: "list_all (\<lambda>c. c < 256) (lit s)"
  by (induction s) (simp_all add: lit_def of_char_below_256)

lemma encode_latin1_lit: "encode_latin1 (lit s) = Inr s"
  by (simp add: encode_latin1_def lit_below_256 latin1_lit)

text \<open>What building the response gives: the two headers when every character of the
  filename is at most U+00FF, \<^verbatim>\<open>UnicodeEncodeError\<close> otherwise.\<close>

lemma pdf_response_latin1:
  assumes "list_all (\<lambda>c. c < 256) fname"
  shows "pdf_response fname b =
     Inr \<lparr>status = 200, media_type = lit ''application/pdf'',
          raw_headers = [(''content-disposition'', ''attachment; filename='' @ latin1 fname @ ''.pdf''),
                         (''content-type'', ''application/pdf'')],
          stream = b\<rparr>"
proof -
  have k: "lower (lit ''Content-Disposition'') = lit ''content-disposition''"
    by (simp add: lit_def lower_def lower_char_def)
  have "list_all (\<lambda>c. c < 256) (lit ''attachment; filename='' @ fname @ lit ''.pdf'')"
    using assms by (simp add: lit_below_256)
  then have v: "encode_latin1 (lit ''attachment; filename='' @ fname @ lit ''.pdf'') =
      Inr (''attachment; filename='' @ latin1 fname @ ''.pdf'')"
    by (simp add: encode_latin1_def latin1_append latin1_lit)
  show ?thesis
    by (simp add: pdf_StreamingResponse_def k v encode_latin1_lit latin1_lit)
qed

lemma pdf_response_not_latin1:
  assumes "\<not> list_all (\<lambda>c. c < 256) fname"
  shows "pdf_response fname b = Inl UnicodeEncodeError"
proof -
  have k: "lower (lit ''Content-Disposition'') = lit ''content-disposition''"
    by (simp add: lit_def lower_def lower_char_def)
  have "\<not> list_all (\<lambda>c. c < 256) (lit ''attachment; filename='' @ fname @ lit ''.pdf'')"
    using assms by simp
  then have "encode_latin1 (lit ''attachment; filename='' @ fname @ lit ''.pdf'') =
      Inl UnicodeEncodeError"
    by (simp only: encode_latin1_def if_False)
  then show ?thesis
    by (simp add: pdf_StreamingResponse_def k encode_latin1_lit)
qed


section \<open>Validation\<close>

lemma tailmatch_iff: "tailmatch s suf \<longleftrightarrow> (\<exists>p. s = p @ suf)"
proof
  assume "tailmatch s suf"
  then have "s = take (length s - length suf) s @ suf"
    by (metis append_take_drop_id tailmatch_def)
  then show "\<exists>p. s = p @ suf" ..
next
  assume "\<exists>p. s = p @ suf"
  then show "tailmatch s suf"
    by (auto simp: tailmatch_def)
qed

text \<open>Lowering is character by character, so the lowered name ends in \<open>suf\<close> exactly
  when the name ends in some spelling of \<open>suf\<close>.\<close>

lemma lower_suffix_iff: "(\<exists>p. lower f = p @ suf) \<longleftrightarrow> (\<exists>p s. f = p @ s \<and> lower s = suf)"
proof
  assume "\<exists>p. lower f = p @ suf"
  then obtain p where p: "lower f = p @ suf" ..
  let ?k = "length f - length suf"
  have len: "length f = length p + length suf"
    using p by (metis length_append length_map lower_def)
  have "lower (drop ?k f) = drop ?k (lower f)"
    by (simp add: lower_def drop_map)
  also have "\<dots> = suf"
    using p len by simp
  finally have "lower (drop ?k f) = suf" .
  moreover have "f = take ?k f @ drop ?k f"
    by simp
  ultimately show "\<exists>p s. f = p @ s \<and> lower s = suf"
    by blast
next
  assume "\<exists>p s. f = p @ s \<and> lower s = suf"
  then obtain p s where "f = p @ s" "lower s = suf"
    by blast
  then have "lower f = lower p @ suf"
    by (simp add: lower_def)
  then show "\<exists>p. lower f = p @ suf" ..
qed

lemma endswith_pair:
  "endswith (lower f) [a, b] \<longleftrightarrow> (\<exists>p s. f = p @ s \<and> (lower s = a \<or> lower s = b))"
proof -
  have "endswith (lower f) [a, b] \<longleftrightarrow> (\<exists>p. lower f = p @ a) \<or> (\<exists>p. lower f = p @ b)"
    by (simp add: tailmatch_iff)
  also have "\<dots> \<longleftrightarrow> (\<exists>p s. f = p @ s \<and> lower s = a) \<or> (\<exists>p s. f = p @ s \<and> lower s = b)"
    by (simp only: lower_suffix_iff)
  also have "\<dots> \<longleftrightarrow> (\<exists>p s. f = p @ s \<and> (lower s = a \<or> lower s = b))"
    by blast
  finally show ?thesis .
qed

text \<open>
  C2. A request whose filename does not end, whatever the case of its letters, in
  \<^verbatim>\<open>.docx\<close> or \<^verbatim>\<open>.pptx\<close> gets the 400 response with detail
  \<^verbatim>\<open>Only DOCX or PPTX supported\<close>, and nothing is called: the log of the run is empty.
\<close>

theorem invalid_filename_rejected:
  assumes "\<nexists>p s. filename file = p @ s \<and> (lower s = lit ''.docx'' \<or> lower s = lit ''.pptx'')"
  shows "convert cfg py_str net file =
           (Inl (HTTPException 400 (lit ''Only DOCX or PPTX supported'')), [])"
proof -
  have "\<not> endswith (lower (filename file)) [lit ''.docx'', lit ''.pptx'']"
    using assms by (simp only: endswith_pair) simp
  then show ?thesis
    by (simp add: convert_def)
qed

text \<open>The scenario of the specification: \<^verbatim>\<open>image.png\<close> on a network where every call
  would succeed.\<close>

theorem invalid_filename_rejected_witness:
  "convert demo_cfg str_token all_ok image_png =
     (Inl (HTTPException 400 (lit ''Only DOCX or PPTX supported'')), [])"
proof -
  have "\<not> endswith (lower (filename image_png)) [lit ''.docx'', lit ''.pptx'']"
    by (simp add: image_png_def str_defs)
  then have "\<nexists>p s. filename image_png = p @ s \<and> (lower s = lit ''.docx'' \<or> lower s = lit ''.pptx'')"
    by (simp only: endswith_pair) simp
  then show ?thesis
    by (rule invalid_filename_rejected)
qed


section \<open>The log of a run\<close>

lemma calls_append: "calls (xs @ ys) = calls xs @ calls ys"
  by (induction xs rule: calls.induct) simp_all

lemma verbs_append: "verbs (xs @ ys) = verbs xs @ verbs ys"
  by (simp add: verbs_def calls_append)

lemma verbs_simps:
  "verbs [] = []" "verbs (Call req # es) = verb req # verbs es" "verbs (FileRead # es) = verbs es"
  by (simp_all add: verbs_def)

text \<open>Each helper performs exactly one call, whatever its outcome.\<close>

lemma get_access_token_log:
  "snd (get_access_token cfg net log) = log @ [Call (token_request cfg)]"
  by (simp add: get_access_token_def client_call_def Let_def)

lemma upload_file_log:
  "snd (upload_file cfg py_str net token fname bs log) =
     log @ [Call (upload_request cfg py_str token fname bs)]"
  by (simp add: upload_file_def client_call_def Let_def)

lemma convert_to_pdf_log:
  "snd (convert_to_pdf cfg py_str net token fname log) =
     log @ [Call (convert_request cfg py_str token fname)]"
  by (simp add: convert_to_pdf_def client_call_def Let_def)

lemma delete_file_log:
  "snd (delete_file cfg py_str net token fname log) =
     log @ [Call (delete_request cfg py_str token fname)]"
  by (simp add: delete_file_def client_call_def Let_def)

text \<open>The four ways a run with an accepted filename goes on after the token request.\<close>

lemma convert_token_failed:
  assumes "endswith (lower (filename file)) [lit ''.docx'', lit ''.pptx'']"
    and "fst (get_access_token cfg net []) = Inl e"
  shows "convert cfg py_str net file = (Inl e, [Call (token_request cfg)])"
proof -
  have "get_access_token cfg net [] = (Inl e, [Call (token_request cfg)])"
    using assms(2) get_access_token_log [of cfg net "[]"] by (simp add: prod_eq_iff)
  with assms(1) show ?thesis
    by (simp add: convert_def)
qed

lemma convert_read_failed:
  assumes "endswith (lower (filename file)) [lit ''.docx'', lit ''.pptx'']"
    and "fst (get_access_token cfg net []) = Inr token"
    and "read_result file = Inl e"
  shows "convert cfg py_str net file = (Inl e, [Call (token_request cfg), FileRead])"
proof -
  have "get_access_token cfg net [] = (Inr token, [Call (token_request cfg)])"
    using assms(2) get_access_token_log [of cfg net "[]"] by (simp add: prod_eq_iff)
  with assms(1,3) show ?thesis
    by (simp add: convert_def file_read_def)
qed

lemma convert_upload_failed:
  assumes "endswith (lower (filename file)) [lit ''.docx'', lit ''.pptx'']"
    and "fst (get_access_token cfg net []) = Inr token"
    and "read_result file = Inr bs"
    and "fst (upload_file cfg py_str net token (filename file) bs
                [Call (token_request cfg), FileRead]) = Inl e"
  shows "convert cfg py_str net file =
     (case fst (delete_file cfg py_str net token (filename file)
                  [Call (token_request cfg), FileRead,
                   Call (upload_request cfg py_str token (filename file) bs)]) of
        Inl e' \<Rightarrow> Inl e'
      | Inr _ \<Rightarrow> Inl e,
      [Call (token_request cfg), FileRead,
       Call (upload_request cfg py_str token (filename file) bs),
       Call (delete_request cfg py_str token (filename file))])"
proof -
  let ?l2 = "[Call (token_request cfg), FileRead]"
  let ?l3 = "?l2 @ [Call (upload_request cfg py_str token (filename file) bs)]"
  have t: "get_access_token cfg net [] = (Inr token, [Call (token_request cfg)])"
    using assms(2) get_access_token_log [of cfg net "[]"] by (simp add: prod_eq_iff)
  have u: "upload_file cfg py_str net token (filename file) bs ?l2 = (Inl e, ?l3)"
    using assms(4) upload_file_log [of cfg py_str net token "filename file" bs ?l2]
    by (simp add: prod_eq_iff)
  obtain d where d: "delete_file cfg py_str net token (filename file) ?l3 =
      (d, ?l3 @ [Call (delete_request cfg py_str token (filename file))])"
    using delete_file_log [of cfg py_str net token "filename file" ?l3]
    by (simp add: prod_eq_iff)
  from assms(1,3) t u d show ?thesis
    by (simp add: convert_def file_read_def split: sum.splits)
qed

lemma convert_upload_returned:
  assumes "endswith (lower (filename file)) [lit ''.docx'', lit ''.pptx'']"
    and "fst (get_access_token cfg net []) = Inr token"
    and "read_result file = Inr bs"
    and "fst (upload_file cfg py_str net token (filename file) bs
                [Call (token_request cfg), FileRead]) = Inr j"
  shows "convert cfg py_str net file =
     (case fst (delete_file cfg py_str net token (filename file)
                  [Call (token_request cfg), FileRead,
                   Call (upload_request cfg py_str token (filename file) bs),
                   Call (convert_request cfg py_str token (filename file))]) of
        Inl e' \<Rightarrow> Inl e'
      | Inr _ \<Rightarrow>
          (case fst (convert_to_pdf cfg py_str net token (filename file)
                       [Call (token_request cfg), FileRead,
                        Call (upload_request cfg py_str token (filename file) bs)]) of
             Inl e \<Rightarrow> Inl e
           | Inr pdf_bytes \<Rightarrow> pdf_response (filename file) pdf_bytes),
      [Call (token_request cfg), FileRead,
       Call (upload_request cfg py_str token (filename file) bs),
       Call (convert_request cfg py_str token (filename file)),
       Call (delete_request cfg py_str token (filename file))])"
proof -
  let ?l2 = "[Call (token_request cfg), FileRead]"
  let ?l3 = "?l2 @ [Call (upload_request cfg py_str token (filename file) bs)]"
  let ?l4 = "?l3 @ [Call (convert_request cfg py_str token (filename file))]"
  have t: "get_access_token cfg net [] = (Inr token, [Call (token_request cfg)])"
    using assms(2) get_access_token_log [of cfg net "[]"] by (simp add: prod_eq_iff)
  have u: "upload_file cfg py_str net token (filename file) bs ?l2 = (Inr j, ?l3)"
    using assms(4) upload_file_log [of cfg py_str net token "filename file" bs ?l2]
    by (simp add: prod_eq_iff)
  obtain c where c: "convert_to_pdf cfg py_str net token (filename file) ?l3 = (c, ?l4)"
    using convert_to_pdf_log [of cfg py_str net token "filename file" ?l3]
    by (simp add: prod_eq_iff)
  obtain d where d: "delete_file cfg py_str net token (filename file) ?l4 =
      (d, ?l4 @ [Call (delete_request cfg py_str token (filename file))])"
    using delete_file_log [of cfg py_str net token "filename file" ?l4]
    by (simp add: prod_eq_iff)
  from assms(1,3) t u c d show ?thesis
    by (simp add: convert_def file_read_def split: sum.splits)
qed


section \<open>Runs of the example deployment\<close>

lemma accepted_names:
  "endswith (lower (filename report_docx)) [lit ''.docx'', lit ''.pptx'']"
  "endswith (lower (filename bare_docx)) [lit ''.docx'', lit ''.pptx'']"
  "endswith (lower (filename dotted_DOCX)) [lit ''.docx'', lit ''.pptx'']"
  "endswith (lower (filename unreadable_docx)) [lit ''.docx'', lit ''.pptx'']"
  by (simp_all add: demo_defs str_defs)

lemma token_of_run:
  "fst (get_access_token demo_cfg all_ok []) = Inr (JString (lit ''tok''))"
  "fst (get_access_token demo_cfg upload_down []) = Inr (JString (lit ''tok''))"
  "fst (get_access_token demo_cfg upload_not_json []) = Inr (JString (lit ''tok''))"
  "fst (get_access_token demo_cfg delete_404 []) = Inr (JString (lit ''tok''))"
  "fst (get_access_token demo_cfg delete_unreachable []) = Inr (JString (lit ''tok''))"
  "fst (get_access_token demo_cfg token_down []) = Inl (HTTPStatusError 401)"
  by (simp_all add: get_access_token_def client_call_def raise_for_status_def json_of_def
      getitem_def demo_defs)

lemma run_all_ok:
  "convert demo_cfg str_token all_ok report_docx =
     (pdf_response (lit ''report.docx'') ''%PDF-1.7'',
      [Call (token_request demo_cfg), FileRead,
       Call (upload_request demo_cfg str_token (JString (lit ''tok'')) (lit ''report.docx'') ''X''),
       Call (convert_request demo_cfg str_token (JString (lit ''tok'')) (lit ''report.docx'')),
       Call (delete_request demo_cfg str_token (JString (lit ''tok'')) (lit ''report.docx''))])"
  by (simp add: run_defs demo_defs str_defs Let_def)


section \<open>Order of the calls\<close>

text \<open>
  C10. Validation looks at nothing but the end of the lowered filename: when it is
  \<^verbatim>\<open>.docx\<close> or \<^verbatim>\<open>.pptx\<close>, whatever precedes it (nothing at all included), the run goes
  on to the token request, the POST to the token URL; otherwise, and for the empty
  filename in particular, the outcome is the 400 response.
\<close>

theorem validation_tests_suffix_only:
  "((\<exists>p. lower (filename file) = p @ lit ''.docx'') \<or> (\<exists>p. lower (filename file) = p @ lit ''.pptx'')
      \<longrightarrow> (\<exists>rest. snd (convert cfg py_str net file) = Call (token_request cfg) # rest))
   \<and> (\<not> ((\<exists>p. lower (filename file) = p @ lit ''.docx'') \<or> (\<exists>p. lower (filename file) = p @ lit ''.pptx''))
      \<longrightarrow> convert cfg py_str net file =
            (Inl (HTTPException 400 (lit ''Only DOCX or PPTX supported'')), []))
   \<and> convert cfg py_str net (file\<lparr>filename := []\<rparr>) =
       (Inl (HTTPException 400 (lit ''Only DOCX or PPTX supported'')), [])"
proof (intro conjI impI)
  assume "(\<exists>p. lower (filename file) = p @ lit ''.docx'') \<or> (\<exists>p. lower (filename file) = p @ lit ''.pptx'')"
  then have valid: "endswith (lower (filename file)) [lit ''.docx'', lit ''.pptx'']"
    by (simp add: tailmatch_iff)
  show "\<exists>rest. snd (convert cfg py_str net file) = Call (token_request cfg) # rest"
  proof (cases "fst (get_access_token cfg net [])")
    case (Inl e)
    then show ?thesis
      by (simp add: convert_token_failed [OF valid])
  next
    case tok: (Inr token)
    show ?thesis
    proof (cases "read_result file")
      case (Inl e)
      then show ?thesis
        by (simp add: convert_read_failed [OF valid tok])
    next
      case bs: (Inr bs)
      show ?thesis
      proof (cases "fst (upload_file cfg py_str net token (filename file) bs
                           [Call (token_request cfg), FileRead])")
        case (Inl e)
        then show ?thesis
          by (simp add: convert_upload_failed [OF valid tok bs])
      next
        case (Inr j)
        then show ?thesis
          by (simp add: convert_upload_returned [OF valid tok bs])
      qed
    qed
  qed
next
  assume "\<not> ((\<exists>p. lower (filename file) = p @ lit ''.docx'') \<or> (\<exists>p. lower (filename file) = p @ lit ''.pptx''))"
  then have "\<not> endswith (lower (filename file)) [lit ''.docx'', lit ''.pptx'']"
    by (simp add: tailmatch_iff)
  then show "convert cfg py_str net file =
      (Inl (HTTPException 400 (lit ''Only DOCX or PPTX supported'')), [])"
    by (simp add: convert_def)
next
  show "convert cfg py_str net (file\<lparr>filename := []\<rparr>) =
      (Inl (HTTPException 400 (lit ''Only DOCX or PPTX supported'')), [])"
    by (simp add: convert_def lower_def tailmatch_def lit_def)
qed

text \<open>The names \<^verbatim>\<open>.docx\<close> and \<^verbatim>\<open>a.b.DOCX\<close> reach the token request; the empty name
  does not.\<close>

theorem validation_tests_suffix_only_witness:
  "lower (filename bare_docx) = [] @ lit ''.docx''
   \<and> hd (snd (convert demo_cfg str_token all_ok bare_docx)) = Call (token_request demo_cfg)
   \<and> lower (filename dotted_DOCX) = lit ''a.b'' @ lit ''.docx''
   \<and> hd (snd (convert demo_cfg str_token all_ok dotted_DOCX)) = Call (token_request demo_cfg)
   \<and> convert demo_cfg str_token all_ok (bare_docx\<lparr>filename := []\<rparr>) =
       (Inl (HTTPException 400 (lit ''Only DOCX or PPTX supported'')), [])"
proof -
  have a: "lower (filename bare_docx) = [] @ lit ''.docx''"
    by (simp add: demo_defs str_defs)
  have b: "lower (filename dotted_DOCX) = lit ''a.b'' @ lit ''.docx''"
    by (simp add: demo_defs str_defs)
  from a validation_tests_suffix_only [of bare_docx demo_cfg str_token all_ok]
  obtain r1 where "snd (convert demo_cfg str_token all_ok bare_docx) =
      Call (token_request demo_cfg) # r1"
    by blast
  then have "hd (snd (convert demo_cfg str_token all_ok bare_docx)) = Call (token_request demo_cfg)"
    by simp
  moreover from b validation_tests_suffix_only [of dotted_DOCX demo_cfg str_token all_ok]
  obtain r2 where "snd (convert demo_cfg str_token all_ok dotted_DOCX) =
      Call (token_request demo_cfg) # r2"
    by blast
  then have "hd (snd (convert demo_cfg str_token all_ok dotted_DOCX)) = Call (token_request demo_cfg)"
    by simp
  moreover from validation_tests_suffix_only [of bare_docx demo_cfg str_token all_ok]
  have "convert demo_cfg str_token all_ok (bare_docx\<lparr>filename := []\<rparr>) =
       (Inl (HTTPException 400 (lit ''Only DOCX or PPTX supported'')), [])"
    by blast
  ultimately show ?thesis
    using a b by blast
qed

text \<open>
  C6. When the token request fails, the run ends with that error and the token request
  is its only effect: the file is not read, nothing is uploaded, nothing is deleted.
\<close>

theorem token_failure_is_terminal:
  assumes "endswith (lower (filename file)) [lit ''.docx'', lit ''.pptx'']"
    and "fst (get_access_token cfg net []) = Inl e"
  shows "convert cfg py_str net file = (Inl e, [Call (token_request cfg)])
         \<and> verbs (snd (convert cfg py_str net file)) = [POST]"
  by (simp add: convert_token_failed [OF assms] verbs_def)

theorem token_failure_is_terminal_witness:
  "endswith (lower (filename report_docx)) [lit ''.docx'', lit ''.pptx'']
   \<and> fst (get_access_token demo_cfg token_down []) = Inl (HTTPStatusError 401)
   \<and> convert demo_cfg str_token token_down report_docx =
       (Inl (HTTPStatusError 401), [Call (token_request demo_cfg)])
   \<and> verbs (snd (convert demo_cfg str_token token_down report_docx)) = [POST]"
  using token_failure_is_terminal [OF accepted_names(1) token_of_run(6), of str_token]
    accepted_names(1) token_of_run(6)
  by blast

text \<open>
  C9. The file is read only after the token was obtained: in a run that reads the file,
  the token request returned a token and the read is the effect right after it. When the
  read then fails, the run ends with the error of the read, and no drive call is made.
\<close>

theorem token_before_read:
  "(FileRead \<in> set (snd (convert cfg py_str net file))
      \<longrightarrow> (\<exists>token rest. fst (get_access_token cfg net []) = Inr token
             \<and> snd (convert cfg py_str net file) = Call (token_request cfg) # FileRead # rest))
   \<and> (endswith (lower (filename file)) [lit ''.docx'', lit ''.pptx'']
        \<and> fst (get_access_token cfg net []) = Inr token' \<and> read_result file = Inl e
      \<longrightarrow> convert cfg py_str net file = (Inl e, [Call (token_request cfg), FileRead])
          \<and> verbs (snd (convert cfg py_str net file)) = [POST])"
proof (intro conjI impI)
  assume r: "FileRead \<in> set (snd (convert cfg py_str net file))"
  then have valid: "endswith (lower (filename file)) [lit ''.docx'', lit ''.pptx'']"
    by (auto simp: convert_def split: if_splits)
  show "\<exists>token rest. fst (get_access_token cfg net []) = Inr token
          \<and> snd (convert cfg py_str net file) = Call (token_request cfg) # FileRead # rest"
  proof (cases "fst (get_access_token cfg net [])")
    case (Inl e)
    then show ?thesis
      using r by (simp add: convert_token_failed [OF valid])
  next
    case tok: (Inr token)
    show ?thesis
    proof (cases "read_result file")
      case (Inl e)
      then show ?thesis
        using tok by (simp add: convert_read_failed [OF valid tok])
    next
      case bs: (Inr bs)
      show ?thesis
      proof (cases "fst (upload_file cfg py_str net token (filename file) bs
                           [Call (token_request cfg), FileRead])")
        case (Inl e)
        then show ?thesis
          using tok by (simp add: convert_upload_failed [OF valid tok bs])
      next
        case (Inr j)
        then show ?thesis
          using tok by (simp add: convert_upload_returned [OF valid tok bs])
      qed
    qed
  qed
next
  assume "endswith (lower (filename file)) [lit ''.docx'', lit ''.pptx'']
    \<and> fst (get_access_token cfg net []) = Inr token' \<and> read_result file = Inl e"
  then have c: "convert cfg py_str net file = (Inl e, [Call (token_request cfg), FileRead])"
    by (simp add: convert_read_failed)
  then show "convert cfg py_str net file = (Inl e, [Call (token_request cfg), FileRead])" .
  from c show "verbs (snd (convert cfg py_str net file)) = [POST]"
    by (simp add: verbs_def)
qed

theorem token_before_read_witness:
  "FileRead \<in> set (snd (convert demo_cfg str_token all_ok report_docx))
   \<and> take 2 (snd (convert demo_cfg str_token all_ok report_docx)) =
       [Call (token_request demo_cfg), FileRead]
   \<and> endswith (lower (filename unreadable_docx)) [lit ''.docx'', lit ''.pptx'']
   \<and> fst (get_access_token demo_cfg all_ok []) = Inr (JString (lit ''tok''))
   \<and> read_result unreadable_docx = Inl (OSError ''read failed'')
   \<and> convert demo_cfg str_token all_ok unreadable_docx =
       (Inl (OSError ''read failed''), [Call (token_request demo_cfg), FileRead])"
proof -
  have r: "FileRead \<in> set (snd (convert demo_cfg str_token all_ok report_docx))"
    by (simp add: run_all_ok)
  have f: "read_result unreadable_docx = Inl (OSError ''read failed'')"
    by (simp add: unreadable_docx_def)
  from r token_before_read [of demo_cfg str_token all_ok report_docx]
  obtain rest where "snd (convert demo_cfg str_token all_ok report_docx) =
       Call (token_request demo_cfg) # FileRead # rest"
    by blast
  then have "take 2 (snd (convert demo_cfg str_token all_ok report_docx)) =
       [Call (token_request demo_cfg), FileRead]"
    by (simp add: numeral_2_eq_2)
  moreover from accepted_names(4) token_of_run(1) f
    token_before_read [of demo_cfg str_token all_ok unreadable_docx "JString (lit ''tok'')"
      "OSError ''read failed''"]
  have "convert demo_cfg str_token all_ok unreadable_docx =
       (Inl (OSError ''read failed''), [Call (token_request demo_cfg), FileRead])"
    by blast
  ultimately show ?thesis
    using r f accepted_names(4) token_of_run(1) by blast
qed


text \<open>
  C1. With an accepted filename the calls of a run are, by their methods, the token
  request alone, or token request, upload, cleanup, or token request, upload, conversion,
  cleanup, in this order. Whenever the upload was attempted the cleanup is called exactly
  once, as the last call, however the run ends. When the upload fails the conversion is
  not called and the cleanup is; when the upload returns, the conversion is called, and
  the cleanup after it.
\<close>

theorem calls_in_order:
  assumes valid: "endswith (lower (filename file)) [lit ''.docx'', lit ''.pptx'']"
  shows "(verbs (snd (convert cfg py_str net file)) = [POST]
          \<or> verbs (snd (convert cfg py_str net file)) = [POST, PUT, DELETE]
          \<or> verbs (snd (convert cfg py_str net file)) = [POST, PUT, GET, DELETE])
       \<and> (PUT \<in> set (verbs (snd (convert cfg py_str net file)))
            \<longrightarrow> count_list (verbs (snd (convert cfg py_str net file))) DELETE = 1
                \<and> last (verbs (snd (convert cfg py_str net file))) = DELETE)
       \<and> (fst (get_access_token cfg net []) = Inr token \<and> read_result file = Inr bs
            \<and> fst (upload_file cfg py_str net token (filename file) bs
                      [Call (token_request cfg), FileRead]) = Inl e
            \<longrightarrow> verbs (snd (convert cfg py_str net file)) = [POST, PUT, DELETE])
       \<and> (fst (get_access_token cfg net []) = Inr token \<and> read_result file = Inr bs
            \<and> fst (upload_file cfg py_str net token (filename file) bs
                      [Call (token_request cfg), FileRead]) = Inr j
            \<longrightarrow> verbs (snd (convert cfg py_str net file)) = [POST, PUT, GET, DELETE])"
proof (cases "fst (get_access_token cfg net [])")
  case (Inl e0)
  then show ?thesis
    by (simp add: convert_token_failed [OF valid] verbs_def)
next
  case tok: (Inr token0)
  show ?thesis
  proof (cases "read_result file")
    case (Inl e0)
    then show ?thesis
      using tok by (simp add: convert_read_failed [OF valid tok] verbs_def)
  next
    case bs: (Inr bs0)
    show ?thesis
    proof (cases "fst (upload_file cfg py_str net token0 (filename file) bs0
                         [Call (token_request cfg), FileRead])")
      case (Inl e0)
      then show ?thesis
        using tok bs by (auto simp add: convert_upload_failed [OF valid tok bs] verbs_def)
    next
      case (Inr j0)
      then show ?thesis
        using tok bs by (auto simp add: convert_upload_returned [OF valid tok bs] verbs_def)
    qed
  qed
qed

text \<open>The report on a service where everything works, and on one whose drive is full.\<close>

theorem calls_in_order_witness:
  "endswith (lower (filename report_docx)) [lit ''.docx'', lit ''.pptx'']
   \<and> verbs (snd (convert demo_cfg str_token all_ok report_docx)) = [POST, PUT, GET, DELETE]
   \<and> count_list (verbs (snd (convert demo_cfg str_token all_ok report_docx))) DELETE = 1
   \<and> fst (get_access_token demo_cfg upload_down []) = Inr (JString (lit ''tok''))
   \<and> read_result report_docx = Inr ''X''
   \<and> fst (upload_file demo_cfg str_token upload_down (JString (lit ''tok'')) (filename report_docx) ''X''
            [Call (token_request demo_cfg), FileRead]) = Inl (HTTPStatusError 507)
   \<and> verbs (snd (convert demo_cfg str_token upload_down report_docx)) = [POST, PUT, DELETE]
   \<and> count_list (verbs (snd (convert demo_cfg str_token upload_down report_docx))) DELETE = 1"
proof -
  note v = accepted_names(1)
  have p: "PUT \<in> set (verbs (snd (convert demo_cfg str_token all_ok report_docx)))"
    by (simp add: run_all_ok verbs_def)
  have r: "read_result report_docx = Inr ''X''"
    by (simp add: report_docx_def)
  have w: "fst (upload_file demo_cfg str_token all_ok (JString (lit ''tok'')) (filename report_docx) ''X''
            [Call (token_request demo_cfg), FileRead]) = Inr (JObject [(lit ''id'', JString (lit ''42''))])"
    by (simp add: upload_file_def client_call_def raise_for_status_def json_of_def demo_defs
        Let_def)
  have u: "fst (upload_file demo_cfg str_token upload_down (JString (lit ''tok'')) (filename report_docx) ''X''
            [Call (token_request demo_cfg), FileRead]) = Inl (HTTPStatusError 507)"
    by (simp add: upload_file_def client_call_def raise_for_status_def demo_defs Let_def)
  from token_of_run(1) r w
    calls_in_order [OF v, of demo_cfg str_token all_ok "JString (lit ''tok'')" "''X''" _
      "JObject [(lit ''id'', JString (lit ''42''))]"]
  have a: "verbs (snd (convert demo_cfg str_token all_ok report_docx)) = [POST, PUT, GET, DELETE]"
    by blast
  from p calls_in_order [OF v, of demo_cfg str_token all_ok]
  have b: "count_list (verbs (snd (convert demo_cfg str_token all_ok report_docx))) DELETE = 1"
    by blast
  from token_of_run(2) r u
    calls_in_order [OF v, of demo_cfg str_token upload_down "JString (lit ''tok'')" "''X''"
      "HTTPStatusError 507"]
  have c: "verbs (snd (convert demo_cfg str_token upload_down report_docx)) = [POST, PUT, DELETE]"
    by blast
  then have "PUT \<in> set (verbs (snd (convert demo_cfg str_token upload_down report_docx)))"
    by simp
  with calls_in_order [OF v, of demo_cfg str_token upload_down]
  have d: "count_list (verbs (snd (convert demo_cfg str_token upload_down report_docx))) DELETE = 1"
    by blast
  from v a b token_of_run(2) r u c d show ?thesis
    by blast
qed


section \<open>The drive calls\<close>

text \<open>
  C7. In a run that reaches the drive, the calls after the token request are the upload
  and the cleanup, with the conversion between them when the upload returned. All of them
  name the file by the filename of the request, carry \<^verbatim>\<open>Bearer\<close> followed by the token
  that the token request returned, and go to \<^verbatim>\<open>PUT {base}/root:/{filename}:/content\<close>,
  \<^verbatim>\<open>GET {base}/root:/{filename}:/content?format=pdf\<close> and
  \<^verbatim>\<open>DELETE {base}/root:/{filename}\<close>, where the base is
  \<^verbatim>\<open>https://graph.microsoft.com/v1.0/users/{owner}/drive\<close>.
\<close>

theorem drive_calls_same_file_same_token:
  assumes "endswith (lower (filename file)) [lit ''.docx'', lit ''.pptx'']"
    and "fst (get_access_token cfg net []) = Inr token"
    and "read_result file = Inr bs"
  shows "(tl (calls (snd (convert cfg py_str net file))) =
            [\<lparr>verb = PUT, url = BASE_URL cfg @ lit ''/root:/'' @ filename file @ lit '':/content'',
              headers = [(lit ''Authorization'', lit ''Bearer '' @ py_str token),
                         (lit ''Content-Type'', lit ''application/octet-stream'')],
              body = Content bs\<rparr>,
             \<lparr>verb = DELETE, url = BASE_URL cfg @ lit ''/root:/'' @ filename file,
              headers = [(lit ''Authorization'', lit ''Bearer '' @ py_str token)],
              body = NoPayload\<rparr>]
          \<or> tl (calls (snd (convert cfg py_str net file))) =
            [\<lparr>verb = PUT, url = BASE_URL cfg @ lit ''/root:/'' @ filename file @ lit '':/content'',
              headers = [(lit ''Authorization'', lit ''Bearer '' @ py_str token),
                         (lit ''Content-Type'', lit ''application/octet-stream'')],
              body = Content bs\<rparr>,
             \<lparr>verb = GET, url = BASE_URL cfg @ lit ''/root:/'' @ filename file @ lit '':/content?format=pdf'',
              headers = [(lit ''Authorization'', lit ''Bearer '' @ py_str token)],
              body = NoPayload\<rparr>,
             \<lparr>verb = DELETE, url = BASE_URL cfg @ lit ''/root:/'' @ filename file,
              headers = [(lit ''Authorization'', lit ''Bearer '' @ py_str token)],
              body = NoPayload\<rparr>])
       \<and> hd (calls (snd (convert cfg py_str net file))) = token_request cfg
       \<and> BASE_URL cfg = lit ''https://graph.microsoft.com/v1.0/users/'' @ fstr (GRAPH_USER_ID cfg) @ lit ''/drive''"
proof (cases "fst (upload_file cfg py_str net token (filename file) bs
                     [Call (token_request cfg), FileRead])")
  case (Inl e)
  then show ?thesis
    by (simp add: convert_upload_failed [OF assms] BASE_URL_def)
next
  case (Inr j)
  then show ?thesis
    by (simp add: convert_upload_returned [OF assms] BASE_URL_def)
qed

theorem drive_calls_same_file_same_token_witness:
  "endswith (lower (filename report_docx)) [lit ''.docx'', lit ''.pptx'']
   \<and> fst (get_access_token demo_cfg all_ok []) = Inr (JString (lit ''tok''))
   \<and> read_result report_docx = Inr ''X''
   \<and> tl (calls (snd (convert demo_cfg str_token all_ok report_docx))) =
       [\<lparr>verb = PUT,
         url = lit ''https://graph.microsoft.com/v1.0/users/alice/drive/root:/report.docx:/content'',
         headers = [(lit ''Authorization'', lit ''Bearer tok''),
                    (lit ''Content-Type'', lit ''application/octet-stream'')],
         body = Content ''X''\<rparr>,
        \<lparr>verb = GET,
         url = lit ''https://graph.microsoft.com/v1.0/users/alice/drive/root:/report.docx:/content?format=pdf'',
         headers = [(lit ''Authorization'', lit ''Bearer tok'')], body = NoPayload\<rparr>,
        \<lparr>verb = DELETE,
         url = lit ''https://graph.microsoft.com/v1.0/users/alice/drive/root:/report.docx'',
         headers = [(lit ''Authorization'', lit ''Bearer tok'')], body = NoPayload\<rparr>]"
proof -
  have r: "read_result report_docx = Inr ''X''"
    by (simp add: report_docx_def)
  have g: "length (calls (snd (convert demo_cfg str_token all_ok report_docx))) = 4"
    by (simp add: run_all_ok)
  from drive_calls_same_file_same_token [OF accepted_names(1) token_of_run(1) r, of str_token] g
  have "tl (calls (snd (convert demo_cfg str_token all_ok report_docx))) =
       [upload_request demo_cfg str_token (JString (lit ''tok'')) (filename report_docx) ''X'',
        convert_request demo_cfg str_token (JString (lit ''tok'')) (filename report_docx),
        delete_request demo_cfg str_token (JString (lit ''tok'')) (filename report_docx)]"
    by (cases "calls (snd (convert demo_cfg str_token all_ok report_docx))") auto
  then show ?thesis
    using accepted_names(1) token_of_run(1) r
    by (simp add: BASE_URL_def fstr_def demo_defs lit_def)
qed


text \<open>
  C8. The upload returns what \<^verbatim>\<open>json()\<close> makes of the response: with a 2xx status
  the parsed body, or the parse error when the body is not JSON. In a run where the drive
  answers the upload with a 2xx status and a body that is not JSON, the upload therefore
  raises although the drive stored the file; the conversion is not called, the cleanup
  is, and the run ends with an error.
\<close>

theorem upload_parses_response_as_json:
  "(net log (upload_request cfg py_str token fname bs) = Inr res
      \<and> 200 \<le> status_code res \<and> status_code res \<le> 299
    \<longrightarrow> fst (upload_file cfg py_str net token fname bs log) =
          (case json_body res of None \<Rightarrow> Inl JSONDecodeError | Some j \<Rightarrow> Inr j))
   \<and> (endswith (lower (filename file)) [lit ''.docx'', lit ''.pptx'']
      \<and> fst (get_access_token cfg net []) = Inr token \<and> read_result file = Inr bs
      \<and> net [Call (token_request cfg), FileRead]
             (upload_request cfg py_str token (filename file) bs) = Inr res
      \<and> 200 \<le> status_code res \<and> status_code res \<le> 299 \<and> json_body res = None
    \<longrightarrow> verbs (snd (convert cfg py_str net file)) = [POST, PUT, DELETE]
        \<and> (\<exists>e. fst (convert cfg py_str net file) = Inl e)
        \<and> fst (convert cfg py_str net file) =
            (case fst (delete_file cfg py_str net token (filename file)
                         [Call (token_request cfg), FileRead,
                          Call (upload_request cfg py_str token (filename file) bs)]) of
               Inl e' \<Rightarrow> Inl e'
             | Inr _ \<Rightarrow> Inl JSONDecodeError))"
proof (intro conjI impI)
  assume "net log (upload_request cfg py_str token fname bs) = Inr res
      \<and> 200 \<le> status_code res \<and> status_code res \<le> 299"
  then show "fst (upload_file cfg py_str net token fname bs log) =
          (case json_body res of None \<Rightarrow> Inl JSONDecodeError | Some j \<Rightarrow> Inr j)"
    by (simp add: upload_file_def client_call_def raise_for_status_def json_of_def Let_def)
next
  assume a: "endswith (lower (filename file)) [lit ''.docx'', lit ''.pptx'']
      \<and> fst (get_access_token cfg net []) = Inr token \<and> read_result file = Inr bs
      \<and> net [Call (token_request cfg), FileRead]
             (upload_request cfg py_str token (filename file) bs) = Inr res
      \<and> 200 \<le> status_code res \<and> status_code res \<le> 299 \<and> json_body res = None"
  then have u: "fst (upload_file cfg py_str net token (filename file) bs
                  [Call (token_request cfg), FileRead]) = Inl JSONDecodeError"
    by (simp add: upload_file_def client_call_def raise_for_status_def json_of_def Let_def)
  from a have v: "endswith (lower (filename file)) [lit ''.docx'', lit ''.pptx'']"
    and t: "fst (get_access_token cfg net []) = Inr token" and r: "read_result file = Inr bs"
    by simp_all
  note c = convert_upload_failed [OF v t r u]
  show "verbs (snd (convert cfg py_str net file)) = [POST, PUT, DELETE]"
    by (simp add: c verbs_def)
  show "\<exists>e. fst (convert cfg py_str net file) = Inl e"
    by (simp add: c split: sum.splits)
  show "fst (convert cfg py_str net file) =
      (case fst (delete_file cfg py_str net token (filename file)
                   [Call (token_request cfg), FileRead,
                    Call (upload_request cfg py_str token (filename file) bs)]) of
         Inl e' \<Rightarrow> Inl e'
       | Inr _ \<Rightarrow> Inl JSONDecodeError)"
    by (simp add: c)
qed

text \<open>The drive answers the upload of the report with 200 and an HTML page.\<close>

theorem upload_parses_response_as_json_witness:
  "upload_not_json [Call (token_request demo_cfg), FileRead]
     (upload_request demo_cfg str_token (JString (lit ''tok'')) (filename report_docx) ''X'') =
     Inr upload_html
   \<and> status_code upload_html = 200 \<and> json_body upload_html = None
   \<and> endswith (lower (filename report_docx)) [lit ''.docx'', lit ''.pptx'']
   \<and> fst (get_access_token demo_cfg upload_not_json []) = Inr (JString (lit ''tok''))
   \<and> read_result report_docx = Inr ''X''
   \<and> fst (upload_file demo_cfg str_token upload_not_json (JString (lit ''tok'')) (filename report_docx)
            ''X'' [Call (token_request demo_cfg), FileRead]) = Inl JSONDecodeError
   \<and> verbs (snd (convert demo_cfg str_token upload_not_json report_docx)) = [POST, PUT, DELETE]
   \<and> fst (convert demo_cfg str_token upload_not_json report_docx) = Inl JSONDecodeError"
proof -
  have n: "upload_not_json [Call (token_request demo_cfg), FileRead]
     (upload_request demo_cfg str_token (JString (lit ''tok'')) (filename report_docx) ''X'') =
     Inr upload_html"
    by (simp add: upload_not_json_def scripted_def)
  have s: "status_code upload_html = 200" "json_body upload_html = None"
    "200 \<le> status_code upload_html \<and> status_code upload_html \<le> 299"
    by (simp_all add: upload_html_def)
  have r: "read_result report_docx = Inr ''X''"
    by (simp add: report_docx_def)
  have d: "fst (delete_file demo_cfg str_token upload_not_json (JString (lit ''tok''))
                 (filename report_docx)
                 [Call (token_request demo_cfg), FileRead,
                  Call (upload_request demo_cfg str_token (JString (lit ''tok''))
                          (filename report_docx) ''X'')]) = Inr ()"
    by (simp add: delete_file_def client_call_def Let_def upload_not_json_def scripted_def)
  note t = upload_parses_response_as_json [where net = upload_not_json
      and log = "[Call (token_request demo_cfg), FileRead]" and cfg = demo_cfg
      and py_str = str_token and token = "JString (lit ''tok'')" and fname = "filename report_docx"
      and bs = "''X''" and res = upload_html, of report_docx]
  from t n s have u: "fst (upload_file demo_cfg str_token upload_not_json (JString (lit ''tok''))
      (filename report_docx) ''X'' [Call (token_request demo_cfg), FileRead]) = Inl JSONDecodeError"
    by simp
  from t n s accepted_names(1) token_of_run(3) r
  have "verbs (snd (convert demo_cfg str_token upload_not_json report_docx)) = [POST, PUT, DELETE]
    \<and> fst (convert demo_cfg str_token upload_not_json report_docx) =
        (case fst (delete_file demo_cfg str_token upload_not_json (JString (lit ''tok''))
                 (filename report_docx)
                 [Call (token_request demo_cfg), FileRead,
                  Call (upload_request demo_cfg str_token (JString (lit ''tok''))
                          (filename report_docx) ''X'')]) of
           Inl e' \<Rightarrow> Inl e'
         | Inr _ \<Rightarrow> Inl JSONDecodeError)"
    by blast
  with d have "verbs (snd (convert demo_cfg str_token upload_not_json report_docx)) = [POST, PUT, DELETE]
    \<and> fst (convert demo_cfg str_token upload_not_json report_docx) = Inl JSONDecodeError"
    by simp
  with n s(1,2) accepted_names(1) token_of_run(3) r u show ?thesis
    by blast
qed



section \<open>The token request\<close>

text \<open>
  C5. \<^verbatim>\<open>get_access_token\<close> makes one call: a POST to the token URL of the tenant with
  the form fields \<^verbatim>\<open>client_id\<close>, \<^verbatim>\<open>client_secret\<close>, \<^verbatim>\<open>grant_type\<close> (always
  \<^verbatim>\<open>client_credentials\<close>) and \<^verbatim>\<open>scope\<close> (always
  \<^verbatim>\<open>https://graph.microsoft.com/.default\<close>). It returns a value exactly when the call
  returned a 2xx response whose JSON body is an object with the field \<^verbatim>\<open>access_token\<close>,
  and the value is that of the field. A failed call, a status that is not 2xx, a body that
  is not JSON and a JSON object without the field each raise.
\<close>

theorem token_request_and_result:
  "snd (get_access_token cfg net log) =
     log @ [Call \<lparr>verb = POST,
                  url = lit ''https://login.microsoftonline.com/'' @ fstr (TENANT_ID cfg)
                          @ lit ''/oauth2/v2.0/token'',
                  headers = [],
                  body = Data [(lit ''client_id'', CLIENT_ID cfg),
                               (lit ''client_secret'', CLIENT_SECRET cfg),
                               (lit ''grant_type'', Some (lit ''client_credentials'')),
                               (lit ''scope'', Some (lit ''https://graph.microsoft.com/.default''))]\<rparr>]
   \<and> (fst (get_access_token cfg net log) = Inr v
        \<longleftrightarrow> (\<exists>res kvs. net log (token_request cfg) = Inr res
               \<and> 200 \<le> status_code res \<and> status_code res \<le> 299
               \<and> json_body res = Some (JObject kvs) \<and> map_of kvs (lit ''access_token'') = Some v))
   \<and> (net log (token_request cfg) = Inl e \<longrightarrow> fst (get_access_token cfg net log) = Inl e)
   \<and> (net log (token_request cfg) = Inr res
        \<and> \<not> (200 \<le> status_code res \<and> status_code res \<le> 299)
      \<longrightarrow> fst (get_access_token cfg net log) = Inl (HTTPStatusError (status_code res)))
   \<and> (net log (token_request cfg) = Inr res
        \<and> 200 \<le> status_code res \<and> status_code res \<le> 299 \<and> json_body res = None
      \<longrightarrow> fst (get_access_token cfg net log) = Inl JSONDecodeError)
   \<and> (net log (token_request cfg) = Inr res
        \<and> 200 \<le> status_code res \<and> status_code res \<le> 299
        \<and> json_body res = Some (JObject kvs) \<and> map_of kvs (lit ''access_token'') = None
      \<longrightarrow> fst (get_access_token cfg net log) = Inl (KeyError (lit ''access_token'')))"
proof (intro conjI impI)
  show "snd (get_access_token cfg net log) =
     log @ [Call \<lparr>verb = POST,
                  url = lit ''https://login.microsoftonline.com/'' @ fstr (TENANT_ID cfg)
                          @ lit ''/oauth2/v2.0/token'',
                  headers = [],
                  body = Data [(lit ''client_id'', CLIENT_ID cfg),
                               (lit ''client_secret'', CLIENT_SECRET cfg),
                               (lit ''grant_type'', Some (lit ''client_credentials'')),
                               (lit ''scope'', Some (lit ''https://graph.microsoft.com/.default''))]\<rparr>]"
    by (simp add: get_access_token_log TOKEN_URL_def)
next
  show "fst (get_access_token cfg net log) = Inr v
        \<longleftrightarrow> (\<exists>res kvs. net log (token_request cfg) = Inr res
               \<and> 200 \<le> status_code res \<and> status_code res \<le> 299
               \<and> json_body res = Some (JObject kvs) \<and> map_of kvs (lit ''access_token'') = Some v)"
    by (auto simp add: get_access_token_def client_call_def raise_for_status_def json_of_def
        getitem_def Let_def split: sum.splits option.splits json.splits if_splits)
qed (auto simp add: get_access_token_def client_call_def raise_for_status_def json_of_def
    getitem_def Let_def)


text \<open>The token endpoint answers with a token, with 401, with a page that is not JSON and
  with a JSON object that has no \<^verbatim>\<open>access_token\<close>.\<close>

theorem token_request_and_result_witness:
  "snd (get_access_token demo_cfg all_ok []) =
     [Call \<lparr>verb = POST,
            url = lit ''https://login.microsoftonline.com/contoso/oauth2/v2.0/token'',
            headers = [],
            body = Data [(lit ''client_id'', Some (lit ''app-1'')),
                         (lit ''client_secret'', Some (lit ''s3cret'')),
                         (lit ''grant_type'', Some (lit ''client_credentials'')),
                         (lit ''scope'', Some (lit ''https://graph.microsoft.com/.default''))]\<rparr>]
   \<and> all_ok [] (token_request demo_cfg) = Inr token_ok
   \<and> fst (get_access_token demo_cfg all_ok []) = Inr (JString (lit ''tok''))
   \<and> token_down [] (token_request demo_cfg) = Inr token_denied
   \<and> fst (get_access_token demo_cfg token_down []) = Inl (HTTPStatusError 401)
   \<and> scripted (Inr token_not_json) (Inr upload_ok) (Inr pdf_ok) (Inr delete_ok) []
       (token_request demo_cfg) = Inr token_not_json
   \<and> fst (get_access_token demo_cfg
            (scripted (Inr token_not_json) (Inr upload_ok) (Inr pdf_ok) (Inr delete_ok)) []) =
       Inl JSONDecodeError
   \<and> scripted (Inr token_without_field) (Inr upload_ok) (Inr pdf_ok) (Inr delete_ok) []
       (token_request demo_cfg) = Inr token_without_field
   \<and> fst (get_access_token demo_cfg
            (scripted (Inr token_without_field) (Inr upload_ok) (Inr pdf_ok) (Inr delete_ok)) []) =
       Inl (KeyError (lit ''access_token''))"
proof -
  let ?n1 = "scripted (Inr token_not_json) (Inr upload_ok) (Inr pdf_ok) (Inr delete_ok)"
  let ?n2 = "scripted (Inr token_without_field) (Inr upload_ok) (Inr pdf_ok) (Inr delete_ok)"
  have a: "all_ok [] (token_request demo_cfg) = Inr token_ok"
    by (simp add: all_ok_def scripted_def)
  have a': "200 \<le> status_code token_ok \<and> status_code token_ok \<le> 299
      \<and> json_body token_ok = Some (JObject [(lit ''access_token'', JString (lit ''tok''))])
      \<and> map_of [(lit ''access_token'', JString (lit ''tok''))] (lit ''access_token'') = Some (JString (lit ''tok''))"
    by (simp add: token_ok_def)
  have b: "token_down [] (token_request demo_cfg) = Inr token_denied"
    by (simp add: token_down_def scripted_def)
  have b': "\<not> (200 \<le> status_code token_denied \<and> status_code token_denied \<le> 299)"
    "status_code token_denied = 401"
    by (simp_all add: token_denied_def)
  have c: "?n1 [] (token_request demo_cfg) = Inr token_not_json"
    by (simp add: scripted_def)
  have c': "200 \<le> status_code token_not_json \<and> status_code token_not_json \<le> 299
      \<and> json_body token_not_json = None"
    by (simp add: token_not_json_def)
  have d: "?n2 [] (token_request demo_cfg) = Inr token_without_field"
    by (simp add: scripted_def)
  have d': "200 \<le> status_code token_without_field \<and> status_code token_without_field \<le> 299
      \<and> json_body token_without_field = Some (JObject [(lit ''token_type'', JString (lit ''Bearer''))])
      \<and> map_of [(lit ''token_type'', JString (lit ''Bearer''))] (lit ''access_token'') = None"
    by (simp add: token_without_field_def lit_def)
  have "snd (get_access_token demo_cfg all_ok []) =
     [Call \<lparr>verb = POST,
            url = lit ''https://login.microsoftonline.com/'' @ fstr (TENANT_ID demo_cfg)
                    @ lit ''/oauth2/v2.0/token'',
            headers = [],
            body = Data [(lit ''client_id'', CLIENT_ID demo_cfg),
                         (lit ''client_secret'', CLIENT_SECRET demo_cfg),
                         (lit ''grant_type'', Some (lit ''client_credentials'')),
                         (lit ''scope'', Some (lit ''https://graph.microsoft.com/.default''))]\<rparr>]"
    using token_request_and_result [where cfg = demo_cfg and net = all_ok and log = "[]"]
    by simp
  then have 1: "snd (get_access_token demo_cfg all_ok []) =
     [Call \<lparr>verb = POST,
            url = lit ''https://login.microsoftonline.com/contoso/oauth2/v2.0/token'',
            headers = [],
            body = Data [(lit ''client_id'', Some (lit ''app-1'')),
                         (lit ''client_secret'', Some (lit ''s3cret'')),
                         (lit ''grant_type'', Some (lit ''client_credentials'')),
                         (lit ''scope'', Some (lit ''https://graph.microsoft.com/.default''))]\<rparr>]"
    by (simp add: demo_cfg_def fstr_def lit_def)
  have 2: "fst (get_access_token demo_cfg all_ok []) = Inr (JString (lit ''tok''))"
    using a a' token_request_and_result [where cfg = demo_cfg and net = all_ok and log = "[]"
        and v = "JString (lit ''tok'')"]
    by blast
  have 3: "fst (get_access_token demo_cfg token_down []) = Inl (HTTPStatusError 401)"
    using b b' token_request_and_result [where cfg = demo_cfg and net = token_down and log = "[]"
        and res = token_denied]
    by simp
  have 4: "fst (get_access_token demo_cfg ?n1 []) = Inl JSONDecodeError"
    using c c' token_request_and_result [where cfg = demo_cfg and net = ?n1 and log = "[]"
        and res = token_not_json]
    by blast
  have 5: "fst (get_access_token demo_cfg ?n2 []) = Inl (KeyError (lit ''access_token''))"
    using d d' token_request_and_result [where cfg = demo_cfg and net = ?n2 and log = "[]"
        and res = token_without_field and kvs = "[(lit ''token_type'', JString (lit ''Bearer''))]"]
    by blast
  from 1 a 2 b 3 c 4 d 5 show ?thesis
    by blast
qed

section \<open>The response\<close>

text \<open>
  C4, as stated, fails. The report with the Cyrillic name is accepted, the token is
  obtained, the body is read, the upload returns, the drive returns the PDF and the
  cleanup returns: all four calls are made. Building the response then raises
  \<^verbatim>\<open>UnicodeEncodeError\<close>, because the \<^verbatim>\<open>Content-Disposition\<close> value holds the
  filename and header values are encoded as latin-1. The request ends with that error, not
  with the PDF.
\<close>

theorem cyrillic_filename_counterexample:
  "endswith (lower (filename cyrillic_docx)) [lit ''.docx'', lit ''.pptx'']
   \<and> fst (get_access_token demo_cfg all_ok []) = Inr (JString (lit ''tok''))
   \<and> read_result cyrillic_docx = Inr ''X''
   \<and> fst (upload_file demo_cfg str_token all_ok (JString (lit ''tok'')) (filename cyrillic_docx) ''X''
            [Call (token_request demo_cfg), FileRead]) = Inr (JObject [(lit ''id'', JString (lit ''42''))])
   \<and> fst (convert_to_pdf demo_cfg str_token all_ok (JString (lit ''tok'')) (filename cyrillic_docx)
            [Call (token_request demo_cfg), FileRead,
             Call (upload_request demo_cfg str_token (JString (lit ''tok''))
                     (filename cyrillic_docx) ''X'')]) = Inr ''%PDF-1.7''
   \<and> fst (delete_file demo_cfg str_token all_ok (JString (lit ''tok'')) (filename cyrillic_docx)
            [Call (token_request demo_cfg), FileRead,
             Call (upload_request demo_cfg str_token (JString (lit ''tok''))
                     (filename cyrillic_docx) ''X''),
             Call (convert_request demo_cfg str_token (JString (lit ''tok''))
                     (filename cyrillic_docx))]) = Inr ()
   \<and> verbs (snd (convert demo_cfg str_token all_ok cyrillic_docx)) = [POST, PUT, GET, DELETE]
   \<and> fst (convert demo_cfg str_token all_ok cyrillic_docx) = Inl UnicodeEncodeError"
proof -
  have v: "endswith (lower (filename cyrillic_docx)) [lit ''.docx'', lit ''.pptx'']"
    by (simp add: cyrillic_docx_def str_defs)
  have r: "read_result cyrillic_docx = Inr ''X''"
    by (simp add: cyrillic_docx_def)
  have u: "fst (upload_file demo_cfg str_token all_ok (JString (lit ''tok'')) (filename cyrillic_docx) ''X''
            [Call (token_request demo_cfg), FileRead]) = Inr (JObject [(lit ''id'', JString (lit ''42''))])"
    by (simp add: upload_file_def client_call_def raise_for_status_def json_of_def Let_def
        all_ok_def scripted_def upload_ok_def)
  have c: "fst (convert_to_pdf demo_cfg str_token all_ok (JString (lit ''tok'')) (filename cyrillic_docx)
            [Call (token_request demo_cfg), FileRead,
             Call (upload_request demo_cfg str_token (JString (lit ''tok''))
                     (filename cyrillic_docx) ''X'')]) = Inr ''%PDF-1.7''"
    by (simp add: convert_to_pdf_def client_call_def raise_for_status_def Let_def
        all_ok_def scripted_def pdf_ok_def)
  have d: "fst (delete_file demo_cfg str_token all_ok (JString (lit ''tok'')) (filename cyrillic_docx)
            [Call (token_request demo_cfg), FileRead,
             Call (upload_request demo_cfg str_token (JString (lit ''tok''))
                     (filename cyrillic_docx) ''X''),
             Call (convert_request demo_cfg str_token (JString (lit ''tok''))
                     (filename cyrillic_docx))]) = Inr ()"
    by (simp add: delete_file_def client_call_def Let_def all_ok_def scripted_def)
  have n: "\<not> list_all (\<lambda>c. c < 256) (filename cyrillic_docx)"
    by (simp add: cyrillic_docx_def)
  note run = convert_upload_returned [OF v token_of_run(1) r u]
  have 1: "verbs (snd (convert demo_cfg str_token all_ok cyrillic_docx)) = [POST, PUT, GET, DELETE]"
    by (simp add: run verbs_def)
  have 2: "fst (convert demo_cfg str_token all_ok cyrillic_docx) = Inl UnicodeEncodeError"
    by (simp add: run c d pdf_response_not_latin1 [OF n])
  from v token_of_run(1) r u c d 1 2 show ?thesis
    by blast
qed

text \<open>
  C4, amended. On the success path (token obtained, body read, upload returned, the drive
  answered the conversion with a 2xx response, cleanup returned) with a filename whose
  characters are all at most U+00FF, the endpoint returns status 200, media type and
  header \<^verbatim>\<open>content-type\<close> \<^verbatim>\<open>application/pdf\<close>, the header
  \<^verbatim>\<open>content-disposition: attachment; filename=\<close> followed by the filename of the request
  and \<^verbatim>\<open>.pdf\<close>, and as body the content of the conversion response, whatever bytes
  those are.
\<close>

theorem success_streams_converted_bytes:
  assumes "endswith (lower (filename file)) [lit ''.docx'', lit ''.pptx'']"
    and "list_all (\<lambda>c. c < 256) (filename file)"
    and "fst (get_access_token cfg net []) = Inr token"
    and "read_result file = Inr bs"
    and "fst (upload_file cfg py_str net token (filename file) bs
                [Call (token_request cfg), FileRead]) = Inr j"
    and "net [Call (token_request cfg), FileRead,
              Call (upload_request cfg py_str token (filename file) bs)]
             (convert_request cfg py_str token (filename file)) = Inr res"
    and "200 \<le> status_code res \<and> status_code res \<le> 299"
    and "fst (delete_file cfg py_str net token (filename file)
                [Call (token_request cfg), FileRead,
                 Call (upload_request cfg py_str token (filename file) bs),
                 Call (convert_request cfg py_str token (filename file))]) = Inr u"
  shows "fst (convert_to_pdf cfg py_str net token (filename file)
                [Call (token_request cfg), FileRead,
                 Call (upload_request cfg py_str token (filename file) bs)]) = Inr (content res)
       \<and> fst (convert cfg py_str net file) =
           Inr \<lparr>status = 200, media_type = lit ''application/pdf'',
                raw_headers =
                  [(''content-disposition'',
                    ''attachment; filename='' @ latin1 (filename file) @ ''.pdf''),
                   (''content-type'', ''application/pdf'')],
                stream = content res\<rparr>"
proof -
  have c: "fst (convert_to_pdf cfg py_str net token (filename file)
                [Call (token_request cfg), FileRead,
                 Call (upload_request cfg py_str token (filename file) bs)]) = Inr (content res)"
    using assms(6,7)
    by (simp add: convert_to_pdf_def client_call_def raise_for_status_def Let_def)
  show ?thesis
    using c assms(8)
    by (simp add: convert_upload_returned [OF assms(1,3,4,5)] pdf_response_latin1 [OF assms(2)])
qed

text \<open>The scenario \<^verbatim>\<open>report.docx\<close> with content \<^verbatim>\<open>X\<close>: the PDF of the drive comes
  back under the name \<^verbatim>\<open>report.docx.pdf\<close>.\<close>

theorem success_streams_converted_bytes_witness:
  "endswith (lower (filename report_docx)) [lit ''.docx'', lit ''.pptx'']
   \<and> list_all (\<lambda>c. c < 256) (filename report_docx)
   \<and> fst (get_access_token demo_cfg all_ok []) = Inr (JString (lit ''tok''))
   \<and> read_result report_docx = Inr ''X''
   \<and> status_code pdf_ok = 200 \<and> content pdf_ok = ''%PDF-1.7''
   \<and> fst (convert demo_cfg str_token all_ok report_docx) =
       Inr \<lparr>status = 200, media_type = lit ''application/pdf'',
            raw_headers =
              [(''content-disposition'', ''attachment; filename=report.docx.pdf''),
               (''content-type'', ''application/pdf'')],
            stream = ''%PDF-1.7''\<rparr>"
proof -
  have l: "list_all (\<lambda>c. c < 256) (filename report_docx)"
    by (simp add: report_docx_def lit_below_256)
  have r: "read_result report_docx = Inr ''X''"
    by (simp add: report_docx_def)
  have w: "fst (upload_file demo_cfg str_token all_ok (JString (lit ''tok'')) (filename report_docx) ''X''
            [Call (token_request demo_cfg), FileRead]) = Inr (JObject [(lit ''id'', JString (lit ''42''))])"
    by (simp add: upload_file_def client_call_def raise_for_status_def json_of_def Let_def
        all_ok_def scripted_def upload_ok_def)
  have g: "all_ok [Call (token_request demo_cfg), FileRead,
              Call (upload_request demo_cfg str_token (JString (lit ''tok'')) (filename report_docx) ''X'')]
             (convert_request demo_cfg str_token (JString (lit ''tok'')) (filename report_docx)) = Inr pdf_ok"
    by (simp add: all_ok_def scripted_def)
  have s: "200 \<le> status_code pdf_ok \<and> status_code pdf_ok \<le> 299"
    by (simp add: pdf_ok_def)
  have d: "fst (delete_file demo_cfg str_token all_ok (JString (lit ''tok'')) (filename report_docx)
                [Call (token_request demo_cfg), FileRead,
                 Call (upload_request demo_cfg str_token (JString (lit ''tok'')) (filename report_docx) ''X''),
                 Call (convert_request demo_cfg str_token (JString (lit ''tok'')) (filename report_docx))])
             = Inr ()"
    by (simp add: delete_file_def client_call_def Let_def all_ok_def scripted_def)
  have "fst (convert demo_cfg str_token all_ok report_docx) =
      Inr \<lparr>status = 200, media_type = lit ''application/pdf'',
           raw_headers =
             [(''content-disposition'',
               ''attachment; filename='' @ latin1 (filename report_docx) @ ''.pdf''),
              (''content-type'', ''application/pdf'')],
           stream = content pdf_ok\<rparr>"
    using success_streams_converted_bytes [OF accepted_names(1) l token_of_run(1) r w g s d]
    by simp
  then show ?thesis
    using accepted_names(1) l token_of_run(1) r
    by (simp add: report_docx_def pdf_ok_def latin1_lit)
qed


section \<open>The cleanup\<close>

text \<open>
  C3, as stated, fails. \<^verbatim>\<open>delete_file\<close> awaits \<^verbatim>\<open>client.delete\<close> with no handler
  around it, and the endpoint calls it in a \<^verbatim>\<open>finally\<close> block: when the call itself
  raises (here the connection is reset), \<^verbatim>\<open>delete_file\<close> raises, and the request whose
  conversion returned the PDF ends with the error of the cleanup. On the network that
  differs only in answering the cleanup, the same request returns the PDF.
\<close>

theorem delete_failure_counterexample:
  "fst (convert_to_pdf demo_cfg str_token delete_unreachable (JString (lit ''tok''))
          (lit ''report.docx'')
          [Call (token_request demo_cfg), FileRead,
           Call (upload_request demo_cfg str_token (JString (lit ''tok'')) (lit ''report.docx'') ''X'')]) =
     Inr ''%PDF-1.7''
   \<and> fst (delete_file demo_cfg str_token delete_unreachable (JString (lit ''tok''))
          (lit ''report.docx'')
          [Call (token_request demo_cfg), FileRead,
           Call (upload_request demo_cfg str_token (JString (lit ''tok'')) (lit ''report.docx'') ''X''),
           Call (convert_request demo_cfg str_token (JString (lit ''tok'')) (lit ''report.docx''))]) =
     Inl (RequestError ''connection reset'')
   \<and> fst (convert demo_cfg str_token delete_unreachable report_docx) =
     Inl (RequestError ''connection reset'')
   \<and> fst (convert demo_cfg str_token all_ok report_docx) =
     Inr \<lparr>status = 200, media_type = lit ''application/pdf'',
          raw_headers =
            [(''content-disposition'', ''attachment; filename=report.docx.pdf''),
             (''content-type'', ''application/pdf'')],
          stream = ''%PDF-1.7''\<rparr>"
proof (intro conjI)
  let ?l2 = "[Call (token_request demo_cfg), FileRead]"
  let ?l3 = "[Call (token_request demo_cfg), FileRead,
              Call (upload_request demo_cfg str_token (JString (lit ''tok''))
                      (lit ''report.docx'') ''X'')]"
  let ?l4 = "[Call (token_request demo_cfg), FileRead,
              Call (upload_request demo_cfg str_token (JString (lit ''tok''))
                      (lit ''report.docx'') ''X''),
              Call (convert_request demo_cfg str_token (JString (lit ''tok''))
                      (lit ''report.docx''))]"
  have f: "filename report_docx = lit ''report.docx''" and r: "read_result report_docx = Inr ''X''"
    by (simp_all add: report_docx_def)
  have u: "fst (upload_file demo_cfg str_token delete_unreachable (JString (lit ''tok''))
                  (filename report_docx) ''X'' ?l2) = Inr (JObject [(lit ''id'', JString (lit ''42''))])"
    by (simp add: upload_file_def client_call_def raise_for_status_def json_of_def Let_def
        delete_unreachable_def scripted_def upload_ok_def)
  show c: "fst (convert_to_pdf demo_cfg str_token delete_unreachable (JString (lit ''tok''))
          (lit ''report.docx'') ?l3) = Inr ''%PDF-1.7''"
    by (simp add: convert_to_pdf_def client_call_def raise_for_status_def Let_def
        delete_unreachable_def scripted_def pdf_ok_def)
  show d: "fst (delete_file demo_cfg str_token delete_unreachable (JString (lit ''tok''))
          (lit ''report.docx'') ?l4) = Inl (RequestError ''connection reset'')"
    by (simp add: delete_file_def client_call_def Let_def delete_unreachable_def scripted_def)
  show "fst (convert demo_cfg str_token delete_unreachable report_docx) =
     Inl (RequestError ''connection reset'')"
    using d by (simp add: convert_upload_returned [OF accepted_names(1) token_of_run(5) r u] f)
  show "fst (convert demo_cfg str_token all_ok report_docx) =
     Inr \<lparr>status = 200, media_type = lit ''application/pdf'',
          raw_headers =
            [(''content-disposition'', ''attachment; filename=report.docx.pdf''),
             (''content-type'', ''application/pdf'')],
          stream = ''%PDF-1.7''\<rparr>"
    by (simp add: run_all_ok pdf_response_latin1 lit_below_256 latin1_lit)
qed

text \<open>
  C3, amended. \<^verbatim>\<open>delete_file\<close> never looks at the response of the delete call: when
  the call returns a response, whatever its status, \<^verbatim>\<open>delete_file\<close> returns, and the
  outcome of the endpoint is the error of the upload, or else the error of the conversion,
  or else what building the response from the converted bytes gives. When the delete call
  itself raises, \<^verbatim>\<open>delete_file\<close> raises the same exception, and that exception is the
  outcome of the endpoint, whether the upload failed or returned and whatever the
  conversion did.
\<close>

theorem delete_ignores_response_status:
  "(net log (delete_request cfg py_str token fname) = Inr res
    \<longrightarrow> fst (delete_file cfg py_str net token fname log) = Inr ())
   \<and> (net log (delete_request cfg py_str token fname) = Inl x
    \<longrightarrow> fst (delete_file cfg py_str net token fname log) = Inl x)
   \<and> (endswith (lower (filename file)) [lit ''.docx'', lit ''.pptx'']
        \<and> fst (get_access_token cfg net []) = Inr token \<and> read_result file = Inr bs
        \<and> fst (upload_file cfg py_str net token (filename file) bs
                  [Call (token_request cfg), FileRead]) = Inl e
        \<and> net [Call (token_request cfg), FileRead,
                Call (upload_request cfg py_str token (filename file) bs)]
               (delete_request cfg py_str token (filename file)) = Inr res
      \<longrightarrow> fst (convert cfg py_str net file) = Inl e)
   \<and> (endswith (lower (filename file)) [lit ''.docx'', lit ''.pptx'']
        \<and> fst (get_access_token cfg net []) = Inr token \<and> read_result file = Inr bs
        \<and> fst (upload_file cfg py_str net token (filename file) bs
                  [Call (token_request cfg), FileRead]) = Inr j
        \<and> net [Call (token_request cfg), FileRead,
                Call (upload_request cfg py_str token (filename file) bs),
                Call (convert_request cfg py_str token (filename file))]
               (delete_request cfg py_str token (filename file)) = Inr res
      \<longrightarrow> fst (convert cfg py_str net file) =
            (case fst (convert_to_pdf cfg py_str net token (filename file)
                         [Call (token_request cfg), FileRead,
                          Call (upload_request cfg py_str token (filename file) bs)]) of
               Inl e' \<Rightarrow> Inl e'
             | Inr pdf_bytes \<Rightarrow> pdf_response (filename file) pdf_bytes))
   \<and> (endswith (lower (filename file)) [lit ''.docx'', lit ''.pptx'']
        \<and> fst (get_access_token cfg net []) = Inr token \<and> read_result file = Inr bs
        \<and> fst (upload_file cfg py_str net token (filename file) bs
                  [Call (token_request cfg), FileRead]) = Inl e
        \<and> net [Call (token_request cfg), FileRead,
                Call (upload_request cfg py_str token (filename file) bs)]
               (delete_request cfg py_str token (filename file)) = Inl x
      \<longrightarrow> fst (convert cfg py_str net file) = Inl x)
   \<and> (endswith (lower (filename file)) [lit ''.docx'', lit ''.pptx'']
        \<and> fst (get_access_token cfg net []) = Inr token \<and> read_result file = Inr bs
        \<and> fst (upload_file cfg py_str net token (filename file) bs
                  [Call (token_request cfg), FileRead]) = Inr j
        \<and> net [Call (token_request cfg), FileRead,
                Call (upload_request cfg py_str token (filename file) bs),
                Call (convert_request cfg py_str token (filename file))]
               (delete_request cfg py_str token (filename file)) = Inl x
      \<longrightarrow> fst (convert cfg py_str net file) = Inl x)"
proof -
  have d: "fst (delete_file cfg py_str net token fname log) = Inr ()"
    if "net log (delete_request cfg py_str token fname) = Inr res" for log fname
    using that by (simp add: delete_file_def client_call_def Let_def)
  have d': "fst (delete_file cfg py_str net token fname log) = Inl x"
    if "net log (delete_request cfg py_str token fname) = Inl x" for log fname
    using that by (simp add: delete_file_def client_call_def Let_def)
  show ?thesis
  proof (intro conjI impI)
    assume "net log (delete_request cfg py_str token fname) = Inr res"
    then show "fst (delete_file cfg py_str net token fname log) = Inr ()"
      by (rule d)
  next
    assume "net log (delete_request cfg py_str token fname) = Inl x"
    then show "fst (delete_file cfg py_str net token fname log) = Inl x"
      by (rule d')
  next
    assume a: "endswith (lower (filename file)) [lit ''.docx'', lit ''.pptx'']
        \<and> fst (get_access_token cfg net []) = Inr token \<and> read_result file = Inr bs
        \<and> fst (upload_file cfg py_str net token (filename file) bs
                  [Call (token_request cfg), FileRead]) = Inl e
        \<and> net [Call (token_request cfg), FileRead,
                Call (upload_request cfg py_str token (filename file) bs)]
               (delete_request cfg py_str token (filename file)) = Inr res"
    then have "fst (delete_file cfg py_str net token (filename file)
                  [Call (token_request cfg), FileRead,
                   Call (upload_request cfg py_str token (filename file) bs)]) = Inr ()"
      by (simp add: d)
    with a show "fst (convert cfg py_str net file) = Inl e"
      by (simp add: convert_upload_failed)
  next
    assume a: "endswith (lower (filename file)) [lit ''.docx'', lit ''.pptx'']
        \<and> fst (get_access_token cfg net []) = Inr token \<and> read_result file = Inr bs
        \<and> fst (upload_file cfg py_str net token (filename file) bs
                  [Call (token_request cfg), FileRead]) = Inr j
        \<and> net [Call (token_request cfg), FileRead,
                Call (upload_request cfg py_str token (filename file) bs),
                Call (convert_request cfg py_str token (filename file))]
               (delete_request cfg py_str token (filename file)) = Inr res"
    then have v: "endswith (lower (filename file)) [lit ''.docx'', lit ''.pptx'']"
      and t: "fst (get_access_token cfg net []) = Inr token"
      and r: "read_result file = Inr bs"
      and u: "fst (upload_file cfg py_str net token (filename file) bs
                  [Call (token_request cfg), FileRead]) = Inr j"
      by simp_all
    from a have "fst (delete_file cfg py_str net token (filename file)
                  [Call (token_request cfg), FileRead,
                   Call (upload_request cfg py_str token (filename file) bs),
                   Call (convert_request cfg py_str token (filename file))]) = Inr ()"
      by (simp add: d)
    then show "fst (convert cfg py_str net file) =
            (case fst (convert_to_pdf cfg py_str net token (filename file)
                         [Call (token_request cfg), FileRead,
                          Call (upload_request cfg py_str token (filename file) bs)]) of
               Inl e' \<Rightarrow> Inl e'
             | Inr pdf_bytes \<Rightarrow> pdf_response (filename file) pdf_bytes)"
      by (simp add: convert_upload_returned [OF v t r u])
  next
    assume a: "endswith (lower (filename file)) [lit ''.docx'', lit ''.pptx'']
        \<and> fst (get_access_token cfg net []) = Inr token \<and> read_result file = Inr bs
        \<and> fst (upload_file cfg py_str net token (filename file) bs
                  [Call (token_request cfg), FileRead]) = Inl e
        \<and> net [Call (token_request cfg), FileRead,
                Call (upload_request cfg py_str token (filename file) bs)]
               (delete_request cfg py_str token (filename file)) = Inl x"
    then have "fst (delete_file cfg py_str net token (filename file)
                  [Call (token_request cfg), FileRead,
                   Call (upload_request cfg py_str token (filename file) bs)]) = Inl x"
      by (simp add: d')
    with a show "fst (convert cfg py_str net file) = Inl x"
      by (simp add: convert_upload_failed)
  next
    assume a: "endswith (lower (filename file)) [lit ''.docx'', lit ''.pptx'']
        \<and> fst (get_access_token cfg net []) = Inr token \<and> read_result file = Inr bs
        \<and> fst (upload_file cfg py_str net token (filename file) bs
                  [Call (token_request cfg), FileRead]) = Inr j
        \<and> net [Call (token_request cfg), FileRead,
                Call (upload_request cfg py_str token (filename file) bs),
                Call (convert_request cfg py_str token (filename file))]
               (delete_request cfg py_str token (filename file)) = Inl x"
    then have v: "endswith (lower (filename file)) [lit ''.docx'', lit ''.pptx'']"
      and t: "fst (get_access_token cfg net []) = Inr token"
      and r: "read_result file = Inr bs"
      and u: "fst (upload_file cfg py_str net token (filename file) bs
                  [Call (token_request cfg), FileRead]) = Inr j"
      by simp_all
    from a have "fst (delete_file cfg py_str net token (filename file)
                  [Call (token_request cfg), FileRead,
                   Call (upload_request cfg py_str token (filename file) bs),
                   Call (convert_request cfg py_str token (filename file))]) = Inl x"
      by (simp add: d')
    then show "fst (convert cfg py_str net file) = Inl x"
      by (simp add: convert_upload_returned [OF v t r u])
  qed
qed

text \<open>The drive answers the cleanup with 404, or the connection is reset during the
  cleanup: after a conversion that returned the PDF, and after an upload that the full
  drive refused.\<close>

theorem delete_ignores_response_status_witness:
  "delete_404 [Call (token_request demo_cfg), FileRead,
               Call (upload_request demo_cfg str_token (JString (lit ''tok'')) (filename report_docx) ''X''),
               Call (convert_request demo_cfg str_token (JString (lit ''tok'')) (filename report_docx))]
      (delete_request demo_cfg str_token (JString (lit ''tok'')) (filename report_docx)) = Inr delete_gone
   \<and> status_code delete_gone = 404
   \<and> fst (delete_file demo_cfg str_token delete_404 (JString (lit ''tok'')) (filename report_docx)
            [Call (token_request demo_cfg), FileRead,
             Call (upload_request demo_cfg str_token (JString (lit ''tok'')) (filename report_docx) ''X''),
             Call (convert_request demo_cfg str_token (JString (lit ''tok'')) (filename report_docx))]) =
       Inr ()
   \<and> fst (convert demo_cfg str_token delete_404 report_docx) =
       Inr \<lparr>status = 200, media_type = lit ''application/pdf'',
            raw_headers =
              [(''content-disposition'', ''attachment; filename=report.docx.pdf''),
               (''content-type'', ''application/pdf'')],
            stream = ''%PDF-1.7''\<rparr>
   \<and> fst (convert demo_cfg str_token
            (scripted (Inr token_ok) (Inr upload_full) (Inr pdf_ok) (Inr delete_gone)) report_docx) =
       Inl (HTTPStatusError 507)
   \<and> delete_unreachable [Call (token_request demo_cfg), FileRead,
               Call (upload_request demo_cfg str_token (JString (lit ''tok'')) (filename report_docx) ''X''),
               Call (convert_request demo_cfg str_token (JString (lit ''tok'')) (filename report_docx))]
      (delete_request demo_cfg str_token (JString (lit ''tok'')) (filename report_docx)) =
       Inl (RequestError ''connection reset'')
   \<and> fst (delete_file demo_cfg str_token delete_unreachable (JString (lit ''tok''))
            (filename report_docx)
            [Call (token_request demo_cfg), FileRead,
             Call (upload_request demo_cfg str_token (JString (lit ''tok'')) (filename report_docx) ''X''),
             Call (convert_request demo_cfg str_token (JString (lit ''tok'')) (filename report_docx))]) =
       Inl (RequestError ''connection reset'')
   \<and> fst (convert demo_cfg str_token delete_unreachable report_docx) =
       Inl (RequestError ''connection reset'')
   \<and> fst (convert demo_cfg str_token
            (scripted (Inr token_ok) (Inr upload_full) (Inr pdf_ok)
               (Inl (RequestError ''connection reset''))) report_docx) =
       Inl (RequestError ''connection reset'')"
proof -
  let ?n = "scripted (Inr token_ok) (Inr upload_full) (Inr pdf_ok) (Inr delete_gone)"
  let ?m = "scripted (Inr token_ok) (Inr upload_full) (Inr pdf_ok)
              (Inl (RequestError ''connection reset''))"
  let ?l2 = "[Call (token_request demo_cfg), FileRead]"
  let ?l3 = "?l2 @ [Call (upload_request demo_cfg str_token (JString (lit ''tok''))
                            (filename report_docx) ''X'')]"
  let ?l4 = "?l3 @ [Call (convert_request demo_cfg str_token (JString (lit ''tok''))
                            (filename report_docx))]"
  let ?del = "delete_request demo_cfg str_token (JString (lit ''tok'')) (filename report_docx)"
  note v = accepted_names(1)
  have r: "read_result report_docx = Inr ''X''"
    by (simp add: report_docx_def)
  have l: "list_all (\<lambda>c. c < 256) (filename report_docx)"
    by (simp add: report_docx_def lit_below_256)
  have g: "delete_404 ?l4 ?del = Inr delete_gone"
    by (simp add: delete_404_def scripted_def)
  have s: "status_code delete_gone = 404"
    by (simp add: delete_gone_def)
  have u: "fst (upload_file demo_cfg str_token delete_404 (JString (lit ''tok'')) (filename report_docx)
                  ''X'' ?l2) = Inr (JObject [(lit ''id'', JString (lit ''42''))])"
    by (simp add: upload_file_def client_call_def raise_for_status_def json_of_def Let_def
        delete_404_def scripted_def upload_ok_def)
  have c: "fst (convert_to_pdf demo_cfg str_token delete_404 (JString (lit ''tok''))
                  (filename report_docx) ?l3) = Inr ''%PDF-1.7''"
    by (simp add: convert_to_pdf_def client_call_def raise_for_status_def Let_def
        delete_404_def scripted_def pdf_ok_def)
  have tn: "fst (get_access_token demo_cfg ?n []) = Inr (JString (lit ''tok''))"
    by (simp add: get_access_token_def client_call_def raise_for_status_def json_of_def
        getitem_def scripted_def token_ok_def)
  have un: "fst (upload_file demo_cfg str_token ?n (JString (lit ''tok'')) (filename report_docx)
                  ''X'' ?l2) = Inl (HTTPStatusError 507)"
    by (simp add: upload_file_def client_call_def raise_for_status_def scripted_def
        upload_full_def Let_def)
  have gn: "?n ?l3 ?del = Inr delete_gone"
    by (simp add: scripted_def)
  have tm: "fst (get_access_token demo_cfg ?m []) = Inr (JString (lit ''tok''))"
    by (simp add: get_access_token_def client_call_def raise_for_status_def json_of_def
        getitem_def scripted_def token_ok_def)
  have um: "fst (upload_file demo_cfg str_token ?m (JString (lit ''tok'')) (filename report_docx)
                  ''X'' ?l2) = Inl (HTTPStatusError 507)"
    by (simp add: upload_file_def client_call_def raise_for_status_def scripted_def
        upload_full_def Let_def)
  have gm: "?m ?l3 ?del = Inl (RequestError ''connection reset'')"
    by (simp add: scripted_def)
  have uu: "fst (upload_file demo_cfg str_token delete_unreachable (JString (lit ''tok''))
                  (filename report_docx) ''X'' ?l2) = Inr (JObject [(lit ''id'', JString (lit ''42''))])"
    by (simp add: upload_file_def client_call_def raise_for_status_def json_of_def Let_def
        delete_unreachable_def scripted_def upload_ok_def)
  have gu: "delete_unreachable ?l4 ?del = Inl (RequestError ''connection reset'')"
    by (simp add: delete_unreachable_def scripted_def)
  have 1: "fst (delete_file demo_cfg str_token delete_404 (JString (lit ''tok'')) (filename report_docx)
                  ?l4) = Inr ()"
    using g delete_ignores_response_status [where net = delete_404 and log = ?l4
        and cfg = demo_cfg and py_str = str_token and token = "JString (lit ''tok'')"
        and fname = "filename report_docx" and res = delete_gone]
    by blast
  have "fst (convert demo_cfg str_token delete_404 report_docx) =
      (case fst (convert_to_pdf demo_cfg str_token delete_404 (JString (lit ''tok''))
                   (filename report_docx) ?l3) of
         Inl e' \<Rightarrow> Inl e'
       | Inr pdf_bytes \<Rightarrow> pdf_response (filename report_docx) pdf_bytes)"
    using v token_of_run(4) r u g
      delete_ignores_response_status [where net = delete_404 and cfg = demo_cfg
        and py_str = str_token and token = "JString (lit ''tok'')" and res = delete_gone
        and bs = "''X''" and j = "JObject [(lit ''id'', JString (lit ''42''))]", of _ _ _ report_docx]
    by simp
  with c have 2: "fst (convert demo_cfg str_token delete_404 report_docx) =
       Inr \<lparr>status = 200, media_type = lit ''application/pdf'',
            raw_headers =
              [(''content-disposition'', ''attachment; filename=report.docx.pdf''),
               (''content-type'', ''application/pdf'')],
            stream = ''%PDF-1.7''\<rparr>"
    by (simp add: pdf_response_latin1 [OF l]) (simp add: report_docx_def latin1_lit)
  have 3: "fst (convert demo_cfg str_token ?n report_docx) = Inl (HTTPStatusError 507)"
    using v tn r un gn
      delete_ignores_response_status [where net = ?n and cfg = demo_cfg
        and py_str = str_token and token = "JString (lit ''tok'')" and res = delete_gone
        and bs = "''X''" and e = "HTTPStatusError 507", of _ _ _ report_docx]
    by simp
  have 4: "fst (delete_file demo_cfg str_token delete_unreachable (JString (lit ''tok''))
                  (filename report_docx) ?l4) = Inl (RequestError ''connection reset'')"
    using gu delete_ignores_response_status [where net = delete_unreachable and log = ?l4
        and cfg = demo_cfg and py_str = str_token and token = "JString (lit ''tok'')"
        and fname = "filename report_docx" and x = "RequestError ''connection reset''"]
    by blast
  have 5: "fst (convert demo_cfg str_token delete_unreachable report_docx) =
      Inl (RequestError ''connection reset'')"
    using v token_of_run(5) r uu gu
      delete_ignores_response_status [where net = delete_unreachable and cfg = demo_cfg
        and py_str = str_token and token = "JString (lit ''tok'')"
        and x = "RequestError ''connection reset''"
        and bs = "''X''" and j = "JObject [(lit ''id'', JString (lit ''42''))]", of _ _ _ report_docx]
    by simp
  have 6: "fst (convert demo_cfg str_token ?m report_docx) = Inl (RequestError ''connection reset'')"
    using v tm r um gm
      delete_ignores_response_status [where net = ?m and cfg = demo_cfg
        and py_str = str_token and token = "JString (lit ''tok'')"
        and x = "RequestError ''connection reset''"
        and bs = "''X''" and e = "HTTPStatusError 507", of _ _ _ report_docx]
    by simp
  from g s 1 2 3 gu 4 5 6 show ?thesis
    by simp
qed

end
